theory Spec2Isabelle
  imports Main "HOL-Library.Char_ord" "HOL-Library.List_Lexorder" "HOL-Library.Multiset"
begin

section \<open>The cube conversion notebook (datasets/01\_Convert\_cubes.ipynb)\<close>

text \<open>
  The notebook has three code cells: imports, the configuration cell (path discovery and
  the five flags) and the conversion loop. Everything the loop does beyond branching on
  flags is a call into the operating system (\<^verbatim>\<open>os.path.exists\<close>, \<^verbatim>\<open>glob\<close>), the
  plotting library (\<^verbatim>\<open>plt.show\<close>) or the geometry library (\<^verbatim>\<open>SeismicGeometry\<close> and
  its methods). Those collaborators are not part of the notebook; the model takes them as
  a record of functions over an opaque world \<open>'w\<close> (file system, library caches, Python
  heap) and geometry handles \<open>'g\<close>. A call may raise, and it leaves a world behind
  whether it raises or returns. What the notebook does to the outside is also logged, call
  by call, as a list of events; console output and figures are visible there, not in the
  world.
\<close>

subsection \<open>Strings of the Python standard library\<close>

text \<open>
  Python strings are modelled as UTF-8 byte lists (\<^typ>\<open>string\<close>). The order on
  \<^typ>\<open>string\<close> is the lexicographic order on bytes, which on UTF-8 text agrees with
  Python's comparison of strings by code point.
\<close>

type_synonym path = string

text \<open>\<^verbatim>\<open>sep.join(items)\<close>.\<close>

fun str_join :: "string \<Rightarrow> string list \<Rightarrow> string" where
  "str_join sep [] = []"
| "str_join sep [x] = x"
| "str_join sep (x # y # ys) = x @ sep @ str_join sep (y # ys)"

text \<open>\<^verbatim>\<open>s * n\<close> on a string.\<close>

definition str_mul :: "string \<Rightarrow> nat \<Rightarrow> string" where
  "str_mul s n = concat (replicate n s)"

text \<open>\<^verbatim>\<open>p.rfind(c)\<close> for a one-character \<open>c\<close>: the last index of \<open>c\<close>, or \<open>-1\<close>.\<close>

fun rfind :: "string \<Rightarrow> char \<Rightarrow> int" where
  "rfind [] c = -1"
| "rfind (x # xs) c =
     (let r = rfind xs c
      in if 0 \<le> r then r + 1 else if x = c then 0 else -1)"

text \<open>
  \<^verbatim>\<open>os.path.splitext\<close> on a POSIX path (the notebook's paths start with \<^verbatim>\<open>/data/\<close>),
  as \<^verbatim>\<open>genericpath._splitext(p, '/', None, '.')\<close> of the standard library computes it:
  \<^verbatim>\<open>
    sepIndex = p.rfind(sep)
    dotIndex = p.rfind(extsep)
    if dotIndex > sepIndex:
        # skip all leading dots
        filenameIndex = sepIndex + 1
        while filenameIndex < dotIndex:
            if p[filenameIndex:filenameIndex+1] != extsep:
                return p[:dotIndex], p[dotIndex:]
            filenameIndex += 1
    return p, p[:0]
  \<close>
  \<open>has_name_before p filenameIndex dotIndex\<close> is the while loop: it answers whether the
  loop leaves through its \<^verbatim>\<open>return\<close>.
\<close>

function has_name_before :: "string \<Rightarrow> nat \<Rightarrow> nat \<Rightarrow> bool" where
  "has_name_before p filenameIndex dotIndex =
     (if filenameIndex < dotIndex
      then (if p ! filenameIndex \<noteq> CHR ''.'' then True
            else has_name_before p (filenameIndex + 1) dotIndex)
      else False)"
  by pat_completeness auto
termination
  by (relation "measure (\<lambda>(p, filenameIndex, dotIndex). dotIndex - filenameIndex)") auto

declare has_name_before.simps [simp del]

definition splitext :: "path \<Rightarrow> string \<times> string" where
  "splitext p =
     (let sepIndex = rfind p (CHR ''/'');
          dotIndex = rfind p (CHR ''.'')
      in if dotIndex > sepIndex
         then (if has_name_before p (nat (sepIndex + 1)) (nat dotIndex)
               then (take (nat dotIndex) p, drop (nat dotIndex) p)
               else (p, []))
         else (p, []))"

subsection \<open>Run configuration\<close>

text \<open>The five names the configuration cell binds after \<^verbatim>\<open>paths\<close>; the loop only reads them.\<close>

record config =
  RECREATE :: bool
  FORMAT :: string
  QUANTIZE :: bool
  SHOW :: bool
  DRY_RUN :: bool

text \<open>
  \<^verbatim>\<open>
  path_converted = '.'.join((os.path.splitext(path_cube)[0],
                             ('q' if QUANTIZE else '') + FORMAT))
  \<close>
\<close>

definition path_converted :: "config \<Rightarrow> path \<Rightarrow> path" where
  "path_converted cfg path_cube =
     str_join ''.'' [fst (splitext path_cube),
                     (if QUANTIZE cfg then ''q'' else '''') @ FORMAT cfg]"

subsection \<open>Collaborators, events and effects\<close>

text \<open>A raised Python exception; the payload names it.\<close>

datatype exn = Exn string

text \<open>
  What the notebook does to the outside, in program order: each \<^verbatim>\<open>os.path.exists\<close> and
  \<^verbatim>\<open>glob\<close> query, each \<^verbatim>\<open>print\<close> (with the text written, line end included) and each call
  into the geometry and plotting libraries with its arguments. \<open>Construct\<close> carries the
  six arguments of \<^verbatim>\<open>SeismicGeometry(path_cube, headers=..., index_headers=...,
  collect_stats=..., spatial=..., recollect=...)\<close>.
\<close>

datatype 'g event =
    Glob string
  | Exists path
  | Print string
  | Construct path "string list" "string list" bool bool bool
  | Quality_map 'g
  | Geometry_print 'g
  | Geometry_print_textual 'g
  | Geometry_show 'g
  | Geometry_show_quality_map 'g
  | Plt_show
  | Convert 'g string bool

record ('w, 'g) collaborators =
  glob :: "'w \<Rightarrow> string \<Rightarrow> path list"
  os_path_exists :: "'w \<Rightarrow> path \<Rightarrow> bool"
  HEADERS_POST_FULL :: "string list"
  INDEX_POST :: "string list"
  SeismicGeometry ::
    "path \<Rightarrow> string list \<Rightarrow> string list \<Rightarrow> bool \<Rightarrow> bool \<Rightarrow> bool \<Rightarrow> 'w \<Rightarrow> (exn + 'g) \<times> 'w"
  quality_map :: "'g \<Rightarrow> 'w \<Rightarrow> (exn + unit) \<times> 'w"
  geometry_print :: "'g \<Rightarrow> 'w \<Rightarrow> (exn + unit) \<times> 'w"
  geometry_print_textual :: "'g \<Rightarrow> 'w \<Rightarrow> (exn + unit) \<times> 'w"
  geometry_show :: "'g \<Rightarrow> 'w \<Rightarrow> (exn + unit) \<times> 'w"
  geometry_show_quality_map :: "'g \<Rightarrow> 'w \<Rightarrow> (exn + unit) \<times> 'w"
  plt_show :: "'w \<Rightarrow> (exn + unit) \<times> 'w"
  geometry_convert :: "'g \<Rightarrow> string \<Rightarrow> bool \<Rightarrow> 'w \<Rightarrow> (exn + 'g) \<times> 'w"

text \<open>
  A piece of the notebook: from a world to its outcome (an exception or a value), the
  world it leaves and the events it caused, oldest first.
\<close>

type_synonym ('a, 'w, 'g) prog = "'w \<Rightarrow> (exn + 'a) \<times> 'w \<times> 'g event list"

definition done_with :: "'a \<Rightarrow> ('a, 'w, 'g) prog" where
  "done_with a = (\<lambda>w. (Inr a, w, []))"

text \<open>
  Sequencing of statements. Python has no handler anywhere in the notebook, so an exception
  of the first statement is the outcome of the sequence and the second never starts.
\<close>

definition then_do :: "('a, 'w, 'g) prog \<Rightarrow> ('a \<Rightarrow> ('b, 'w, 'g) prog) \<Rightarrow> ('b, 'w, 'g) prog" where
  "then_do m f =
     (\<lambda>w. case m w of
             (Inl e, w1, ev1) \<Rightarrow> (Inl e, w1, ev1)
           | (Inr a, w1, ev1) \<Rightarrow> (case f a w1 of (r, w2, ev2) \<Rightarrow> (r, w2, ev1 @ ev2)))"

text \<open>A call of a collaborator that may change the world or raise.\<close>

definition extern :: "'g event \<Rightarrow> ('w \<Rightarrow> (exn + 'a) \<times> 'w) \<Rightarrow> ('a, 'w, 'g) prog" where
  "extern ev call = (\<lambda>w. case call w of (r, w1) \<Rightarrow> (r, w1, [ev]))"

text \<open>A query of the file system: it reads the world and leaves it as it is.\<close>

definition query :: "'g event \<Rightarrow> ('w \<Rightarrow> 'a) \<Rightarrow> ('a, 'w, 'g) prog" where
  "query ev ask = (\<lambda>w. (Inr (ask w), w, [ev]))"

text \<open>\<^verbatim>\<open>print(*args)\<close>: the arguments separated by one space, then a line end.\<close>

definition py_print :: "string list \<Rightarrow> (unit, 'w, 'g) prog" where
  "py_print args = (\<lambda>w. (Inr (), w, [Print (str_join '' '' args @ ''\<newline>'')]))"

text \<open>\<^verbatim>\<open>if c: body\<close> with no \<^verbatim>\<open>else\<close>.\<close>

definition when_true :: "bool \<Rightarrow> (unit, 'w, 'g) prog \<Rightarrow> (unit, 'w, 'g) prog" where
  "when_true c body = (if c then body else done_with ())"

text \<open>
  \<^verbatim>\<open>for x in xs: body\<close>, where \<^verbatim>\<open>continue\<close> ends the body normally and an exception
  ends the loop.
\<close>

primrec for_each :: "('a \<Rightarrow> (unit, 'w, 'g) prog) \<Rightarrow> 'a list \<Rightarrow> (unit, 'w, 'g) prog" where
  "for_each body [] = done_with ()"
| "for_each body (x # xs) = then_do (body x) (\<lambda>_. for_each body xs)"

subsection \<open>The configuration cell: path discovery\<close>

text \<open>
  \<^verbatim>\<open>
  paths = sorted(glob('/data/seismic_data/seismic_interpretation/CUBE_*/amplitudes*.s*y'))
  [print(path) for path in paths]
  \<close>
  \<^verbatim>\<open>sorted\<close> on a list of strings is a stable sort by \<^verbatim>\<open><\<close> on strings.
\<close>

definition pattern :: string where
  "pattern = ''/data/seismic_data/seismic_interpretation/CUBE_*/amplitudes*.s*y''"

definition sorted_py :: "string list \<Rightarrow> string list" where
  "sorted_py xs = sort xs"

definition discover_paths :: "('w, 'g) collaborators \<Rightarrow> string \<Rightarrow> (path list, 'w, 'g) prog" where
  "discover_paths env pat =
     then_do (query (Glob pat) (\<lambda>w. glob env w pat)) (\<lambda>matches.
     let paths = sorted_py matches in
     then_do (for_each (\<lambda>path. py_print [path]) paths) (\<lambda>_.
     done_with paths))"

subsection \<open>The conversion loop\<close>

text \<open>The three characters of U+2586, which the banner repeats sixty times.\<close>

definition block :: string where
  "block = [CHR 0xE2, CHR 0x96, CHR 0x86]"

text \<open>
  The body of \<^verbatim>\<open>for path_cube in tqdm(paths, ncols=800)\<close>, statement by statement.
  \<^verbatim>\<open>tqdm\<close> yields the elements of \<^verbatim>\<open>paths\<close> in order; its progress bar is not modelled.
\<close>

definition iteration :: "config \<Rightarrow> ('w, 'g) collaborators \<Rightarrow> path \<Rightarrow> (unit, 'w, 'g) prog" where
  "iteration cfg env path_cube =
     then_do (query (Exists path_cube) (\<lambda>w. os_path_exists env w path_cube)) (\<lambda>cube_exists.
     if \<not> cube_exists then done_with ()
     else
     let path_converted = path_converted cfg path_cube in
     then_do (query (Exists path_converted) (\<lambda>w. os_path_exists env w path_converted))
       (\<lambda>converted_exists.
     if converted_exists \<and> \<not> RECREATE cfg
     then py_print [path_converted @ '' already exists, skipping'']
     else if DRY_RUN cfg
     then py_print [''Will convert ::: '' @ path_cube @ ''\<newline>to           ::: ''
                      @ path_converted @ ''\<newline>'']
     else
     then_do (when_true (SHOW cfg)
       (then_do (py_print [str_mul block 60]) (\<lambda>_.
        then_do (py_print [str_mul block 60]) (\<lambda>_.
        py_print [''Working with'', path_cube])))) (\<lambda>_.
     then_do (extern
        (Construct path_cube (HEADERS_POST_FULL env) (INDEX_POST env) True True True)
        (SeismicGeometry env path_cube (HEADERS_POST_FULL env) (INDEX_POST env) True True True))
       (\<lambda>geometry.
     then_do (extern (Quality_map geometry) (quality_map env geometry)) (\<lambda>qmap.
     then_do (when_true (SHOW cfg)
       (then_do (extern (Geometry_print geometry) (geometry_print env geometry)) (\<lambda>_.
        then_do (extern (Geometry_print_textual geometry) (geometry_print_textual env geometry))
          (\<lambda>_.
        then_do (extern (Geometry_show geometry) (geometry_show env geometry)) (\<lambda>_.
        then_do (extern (Geometry_show_quality_map geometry)
                   (geometry_show_quality_map env geometry)) (\<lambda>_.
        extern Plt_show (plt_show env))))))) (\<lambda>_.
     then_do (extern (Convert geometry (FORMAT cfg) (QUANTIZE cfg))
                (geometry_convert env geometry (FORMAT cfg) (QUANTIZE cfg)))
       (\<lambda>geometry_converted.
     when_true (SHOW cfg)
       (then_do (extern (Geometry_print geometry_converted)
                   (geometry_print env geometry_converted)) (\<lambda>_.
        py_print [str_mul ''\<newline>'' 3])))))))))"

definition convert_cubes :: "config \<Rightarrow> ('w, 'g) collaborators \<Rightarrow> path list \<Rightarrow> (unit, 'w, 'g) prog" where
  "convert_cubes cfg env paths = for_each (iteration cfg env) paths"

text \<open>The configuration cell followed by the loop cell.\<close>

definition notebook :: "config \<Rightarrow> ('w, 'g) collaborators \<Rightarrow> (unit, 'w, 'g) prog" where
  "notebook cfg env =
     then_do (discover_paths env pattern) (\<lambda>paths. convert_cubes cfg env paths)"

subsection \<open>A small concrete environment\<close>

text \<open>
  A world is the list of the paths that exist; a geometry handle is the path it was built
  from. The constructor raises on one cube, writes a \<^verbatim>\<open>.meta\<close> file next to every
  other; conversion raises on a format it does not know and writes the converted file
  otherwise. The print and show operations render and change nothing.
\<close>

definition sample_env :: "(path list, path) collaborators" where
  "sample_env =
     \<lparr> glob = (\<lambda>w pat. rev w),
       os_path_exists = (\<lambda>w p. p \<in> set w),
       HEADERS_POST_FULL = [''INLINE_3D'', ''CROSSLINE_3D'', ''CDP_X'', ''CDP_Y''],
       INDEX_POST = [''INLINE_3D'', ''CROSSLINE_3D''],
       SeismicGeometry = (\<lambda>p hs ix cs sp rc w.
          if p = ''/d/bad.sgy'' then (Inl (Exn ''ValueError''), w)
          else (Inr p, w @ [fst (splitext p) @ ''.meta''])),
       quality_map = (\<lambda>g w. (Inr (), w)),
       geometry_print = (\<lambda>g w. (Inr (), w)),
       geometry_print_textual = (\<lambda>g w. (Inr (), w)),
       geometry_show = (\<lambda>g w. (Inr (), w)),
       geometry_show_quality_map = (\<lambda>g w. (Inr (), w)),
       plt_show = (\<lambda>w. (Inr (), w)),
       geometry_convert = (\<lambda>g fmt q w.
          if fmt \<noteq> ''hdf5'' \<and> fmt \<noteq> ''blosc'' then (Inl (Exn ''ValueError''), w)
          else let out = fst (splitext g) @ ''.'' @ (if q then ''q'' else '''') @ fmt
               in (Inr out, w @ [out])) \<rparr>"

definition sample_cfg :: config where
  "sample_cfg =
     \<lparr> RECREATE = False, FORMAT = ''hdf5'', QUANTIZE = False, SHOW = False, DRY_RUN = False \<rparr>"

subsection \<open>Classifying events\<close>

text \<open>The calls into the geometry and plotting libraries, as opposed to queries and prints.\<close>

fun is_library_call :: "'g event \<Rightarrow> bool" where
  "is_library_call (Glob pat) = False"
| "is_library_call (Exists p) = False"
| "is_library_call (Print s) = False"
| "is_library_call _ = True"

subsection \<open>Vocabulary for the statements\<close>

text \<open>The text of the notice printed when a converted file is already there.\<close>

definition skip_notice :: "config \<Rightarrow> path \<Rightarrow> string" where
  "skip_notice cfg p = path_converted cfg p @ '' already exists, skipping\<newline>''"

text \<open>The text of the report printed for a cube under \<open>DRY_RUN\<close>.\<close>

definition dry_run_report :: "config \<Rightarrow> path \<Rightarrow> string" where
  "dry_run_report cfg p =
     ''Will convert ::: '' @ p @ ''\<newline>to           ::: '' @ path_converted cfg p @ ''\<newline>\<newline>''"

text \<open>The events of the first \<^verbatim>\<open>if SHOW:\<close> block, which precedes construction.\<close>

definition banner :: "config \<Rightarrow> path \<Rightarrow> 'g event list" where
  "banner cfg p =
     (if SHOW cfg
      then [Print (str_mul block 60 @ ''\<newline>''), Print (str_mul block 60 @ ''\<newline>''),
            Print (''Working with '' @ p @ ''\<newline>'')]
      else [])"

text \<open>
  The cube gets past the three \<^verbatim>\<open>continue\<close> statements: the source exists, the
  converted file is absent or \<open>RECREATE\<close> is set, and \<open>DRY_RUN\<close> is off.
\<close>

definition gates_pass :: "config \<Rightarrow> ('w, 'g) collaborators \<Rightarrow> path \<Rightarrow> 'w \<Rightarrow> bool" where
  "gates_pass cfg env p w \<longleftrightarrow>
     os_path_exists env w p
     \<and> \<not> (os_path_exists env w (path_converted cfg p) \<and> \<not> RECREATE cfg)
     \<and> \<not> DRY_RUN cfg"

text \<open>
  The events that only write to the console or render a figure: prints and the geometry's
  print and show operations.
\<close>

fun is_diagnostic :: "'g event \<Rightarrow> bool" where
  "is_diagnostic (Print s) = True"
| "is_diagnostic (Geometry_print g) = True"
| "is_diagnostic (Geometry_print_textual g) = True"
| "is_diagnostic (Geometry_show g) = True"
| "is_diagnostic (Geometry_show_quality_map g) = True"
| "is_diagnostic Plt_show = True"
| "is_diagnostic _ = False"


text \<open>A run with the output-only events taken out of its event list.\<close>

definition without_diagnostics ::
  "(exn + 'a) \<times> 'w \<times> 'g event list \<Rightarrow> (exn + 'a) \<times> 'w \<times> 'g event list" where
  "without_diagnostics res =
     (case res of (r, w, evs) \<Rightarrow> (r, w, filter (\<lambda>e. \<not> is_diagnostic e) evs))"

section \<open>Properties\<close>

subsection \<open>Running the combinators\<close>

lemma then_do_assoc: "then_do (then_do m f) g = then_do m (\<lambda>a. then_do (f a) g)"
  by (rule ext) (simp add: then_do_def split: prod.splits sum.splits)

lemma then_do_when:
  "then_do (when_true c body) f = (if c then then_do body f else f ())"
  by (rule ext) (simp add: when_true_def then_do_def done_with_def)

lemma then_do_query:
  "then_do (query ev ask) f w = (case f (ask w) w of (r, w2, ev2) \<Rightarrow> (r, w2, ev # ev2))"
  by (simp add: then_do_def query_def)

lemma then_do_print:
  "then_do (py_print args) f w =
     (case f () w of (r, w2, ev2) \<Rightarrow> (r, w2, Print (str_join '' '' args @ ''\<newline>'') # ev2))"
  by (simp add: then_do_def py_print_def)

lemma then_do_extern:
  "then_do (extern ev call) f w =
     (case call w of
        (Inl e, w1) \<Rightarrow> (Inl e, w1, [ev])
      | (Inr a, w1) \<Rightarrow> (case f a w1 of (r, w2, ev2) \<Rightarrow> (r, w2, ev # ev2)))"
  by (simp add: then_do_def extern_def split: prod.splits sum.splits)

lemma then_do_done: "then_do (done_with a) f w = f a w"
  by (simp add: then_do_def done_with_def)

lemma when_true_apply: "when_true c body w = (if c then body w else (Inr (), w, []))"
  by (simp add: when_true_def done_with_def)

lemma py_print_apply:
  "py_print args w = (Inr (), w, [Print (str_join '' '' args @ ''\<newline>'')])"
  by (simp add: py_print_def)

lemma extern_apply: "extern ev call w = (case call w of (r, w1) \<Rightarrow> (r, w1, [ev]))"
  by (simp add: extern_def)

lemma done_with_apply: "done_with a w = (Inr a, w, [])"
  by (simp add: done_with_def)

lemmas prog_simps = then_do_assoc then_do_when then_do_query then_do_print then_do_extern
  then_do_done when_true_apply py_print_apply extern_apply done_with_apply Let_def

lemma for_each_Cons:
  "for_each body (x # xs) w =
     (case body x w of
        (Inl e, w1, ev1) \<Rightarrow> (Inl e, w1, ev1)
      | (Inr u, w1, ev1) \<Rightarrow> (case for_each body xs w1 of (r, w2, ev2) \<Rightarrow> (r, w2, ev1 @ ev2)))"
  by (simp add: then_do_def split: prod.splits sum.splits)

lemma for_each_Nil: "for_each body [] w = (Inr (), w, [])"
  by (simp add: done_with_def)

declare for_each.simps [simp del]

lemma for_each_append:
  "for_each body (xs @ ys) w =
     (case for_each body xs w of
        (Inl e, w1, ev1) \<Rightarrow> (Inl e, w1, ev1)
      | (Inr u, w1, ev1) \<Rightarrow> (case for_each body ys w1 of (r, w2, ev2) \<Rightarrow> (r, w2, ev1 @ ev2)))"
proof (induction xs arbitrary: w)
  case Nil
  then show ?case by (simp add: for_each_Nil split: prod.splits)
next
  case (Cons x xs)
  show ?case
    by (simp only: append_Cons for_each_Cons Cons.IH) (simp split: prod.splits sum.splits)
qed

lemma for_each_print:
  "for_each (\<lambda>path. py_print [path]) ps w = (Inr (), w, map (\<lambda>path. Print (path @ ''\<newline>'')) ps)"
  by (induction ps) (simp_all add: for_each_Nil for_each_Cons py_print_apply)

lemma without_diagnostics_simp [simp]:
  "without_diagnostics (r, w, evs) = (r, w, filter (\<lambda>e. \<not> is_diagnostic e) evs)"
  by (simp add: without_diagnostics_def)


subsection \<open>Splitting off the extension\<close>

lemma rfind_bounds: "-1 \<le> rfind p c \<and> rfind p c < int (length p)"
  by (induction p) (auto simp: Let_def)

lemma rfind_nth: "0 \<le> rfind p c \<Longrightarrow> p ! nat (rfind p c) = c"
  by (induction p) (auto simp: Let_def nat_add_distrib split: if_splits)

lemma rfind_neg: "rfind p c < 0 \<Longrightarrow> c \<notin> set p"
  by (induction p) (auto simp: Let_def split: if_splits)

lemma rfind_last: "0 \<le> rfind p c \<Longrightarrow> c \<notin> set (drop (nat (rfind p c) + 1) p)"
proof (induction p)
  case Nil
  then show ?case by simp
next
  case (Cons x xs)
  show ?case
  proof (cases "0 \<le> rfind xs c")
    case True
    with Cons.IH show ?thesis by (simp add: Let_def nat_add_distrib)
  next
    case False
    then have "c \<notin> set xs" using rfind_neg [of xs c] by simp
    with False Cons.prems show ?thesis by (simp add: Let_def split: if_splits)
  qed
qed

lemma splitext_concat: "fst (splitext p) @ snd (splitext p) = p"
  by (simp add: splitext_def Let_def)

lemma splitext_ext:
  assumes "snd (splitext p) \<noteq> []"
  shows "hd (snd (splitext p)) = CHR ''.'' \<and> CHR ''.'' \<notin> set (tl (snd (splitext p)))
         \<and> CHR ''/'' \<notin> set (snd (splitext p))"
proof -
  define d where "d = rfind p (CHR ''.'')"
  define s where "s = rfind p (CHR ''/'')"
  from assms have gt: "s < d" and ext: "snd (splitext p) = drop (nat d) p"
    by (auto simp: splitext_def Let_def d_def s_def split: if_splits)
  have "-1 \<le> s" using rfind_bounds [of p "CHR ''/''"] by (simp add: s_def)
  with gt have d0: "0 \<le> d" by simp
  have dlen: "nat d < length p"
    using rfind_bounds [of p "CHR ''.''"] d0 by (simp add: d_def)
  then have "hd (drop (nat d) p) = p ! nat d" by (simp add: hd_drop_conv_nth)
  then have dot_first: "hd (drop (nat d) p) = CHR ''.''"
    using rfind_nth [of p "CHR ''.''"] d0 by (simp add: d_def)
  have one_dot: "CHR ''.'' \<notin> set (tl (drop (nat d) p))"
    using rfind_last [of p "CHR ''.''"] d0 by (simp add: d_def tl_drop drop_Suc)
  have "CHR ''/'' \<notin> set (drop (nat (s + 1)) p)"
  proof (cases "0 \<le> s")
    case True
    then show ?thesis using rfind_last [of p "CHR ''/''"] by (simp add: s_def nat_add_distrib)
  next
    case False
    then have "CHR ''/'' \<notin> set p" using rfind_neg [of p "CHR ''/''"] by (simp add: s_def)
    then show ?thesis using in_set_dropD by fast
  qed
  moreover have "set (drop (nat d) p) \<subseteq> set (drop (nat (s + 1)) p)"
    using gt by (intro set_drop_subset_set_drop) simp
  ultimately have "CHR ''/'' \<notin> set (drop (nat d) p)" by blast
  with dot_first one_dot ext show ?thesis by simp
qed

lemma rfind_notin: "c \<notin> set ys \<Longrightarrow> rfind ys c = -1"
  by (induction ys) (auto simp: Let_def)

lemma rfind_append_notin: "c \<notin> set ys \<Longrightarrow> rfind (xs @ ys) c = rfind xs c"
  by (induction xs) (auto simp: Let_def rfind_notin)

lemma rfind_append_Cons: "c \<notin> set ys \<Longrightarrow> rfind (xs @ c # ys) c = int (length xs)"
  by (induction xs) (auto simp: Let_def rfind_notin)

lemma rfind_sep:
  assumes "pre = [] \<or> last pre = c" and "c \<notin> set name"
  shows "rfind (pre @ name) c = int (length pre) - 1"
proof (cases "pre = []")
  case True
  with assms(2) show ?thesis by (simp add: rfind_notin)
next
  case False
  with assms(1) have "pre = butlast pre @ [c]" by (metis append_butlast_last_id)
  then obtain b where b: "pre = b @ [c]" ..
  from assms(2) have "rfind (b @ c # name) c = int (length b)" by (rule rfind_append_Cons)
  with b show ?thesis by simp
qed

lemma has_name_before_iff:
  "has_name_before p i j \<longleftrightarrow> (\<exists>k. i \<le> k \<and> k < j \<and> p ! k \<noteq> CHR ''.'')"
proof (induction p i j rule: has_name_before.induct)
  case (1 p i j)
  show ?case
  proof (cases "i < j")
    case False
    then show ?thesis by (simp add: has_name_before.simps [of p i j])
  next
    case True
    show ?thesis
    proof (cases "p ! i \<noteq> CHR ''.''")
      case True
      with \<open>i < j\<close> show ?thesis by (auto simp add: has_name_before.simps [of p i j])
    next
      case False
      with \<open>i < j\<close> 1 have "has_name_before p i j
          \<longleftrightarrow> (\<exists>k. i + 1 \<le> k \<and> k < j \<and> p ! k \<noteq> CHR ''.'')"
        by (simp add: has_name_before.simps [of p i j])
      also have "\<dots> \<longleftrightarrow> (\<exists>k. i \<le> k \<and> k < j \<and> p ! k \<noteq> CHR ''.'')"
        using False by (metis Suc_eq_plus1 Suc_leI le_neq_implies_less le_SucI not_less_eq_eq order_le_less)
      finally show ?thesis .
    qed
  qed
qed

lemma has_name_before_name:
  "has_name_before (pre @ a @ rest) (length pre) (length pre + length a)
     \<longleftrightarrow> (\<exists>c\<in>set a. c \<noteq> CHR ''.'')"
proof -
  have "(\<exists>k. length pre \<le> k \<and> k < length pre + length a \<and> (pre @ a @ rest) ! k \<noteq> CHR ''.'')
      \<longleftrightarrow> (\<exists>i < length a. a ! i \<noteq> CHR ''.'')"
  proof
    assume "\<exists>k. length pre \<le> k \<and> k < length pre + length a \<and> (pre @ a @ rest) ! k \<noteq> CHR ''.''"
    then obtain k where k: "length pre \<le> k" "k < length pre + length a"
      "(pre @ a @ rest) ! k \<noteq> CHR ''.''" by blast
    then have lt: "k - length pre < length a" and "\<not> k < length pre" by arith+
    with k have "a ! (k - length pre) \<noteq> CHR ''.''" "k - length pre < length a"
      by (simp_all add: nth_append)
    then show "\<exists>i < length a. a ! i \<noteq> CHR ''.''" by blast
  next
    assume "\<exists>i < length a. a ! i \<noteq> CHR ''.''"
    then obtain i where "i < length a" "a ! i \<noteq> CHR ''.''" by blast
    then have "length pre \<le> length pre + i \<and> length pre + i < length pre + length a
        \<and> (pre @ a @ rest) ! (length pre + i) \<noteq> CHR ''.''"
      by (simp add: nth_append)
    then show "\<exists>k. length pre \<le> k \<and> k < length pre + length a \<and> (pre @ a @ rest) ! k \<noteq> CHR ''.''"
      by blast
  qed
  moreover have "(\<exists>c\<in>set a. c \<noteq> CHR ''.'') \<longleftrightarrow> (\<exists>i < length a. a ! i \<noteq> CHR ''.'')"
    by (metis in_set_conv_nth)
  ultimately show ?thesis by (simp only: has_name_before_iff)
qed

lemma splitext_with_dot:
  assumes "pre = [] \<or> last pre = CHR ''/''"
    and "CHR ''/'' \<notin> set a" and "CHR ''/'' \<notin> set e" and "CHR ''.'' \<notin> set e"
  shows "splitext (pre @ a @ CHR ''.'' # e)
       = (if \<exists>c\<in>set a. c \<noteq> CHR ''.'' then (pre @ a, CHR ''.'' # e)
          else (pre @ a @ CHR ''.'' # e, []))"
proof -
  have sep: "rfind (pre @ a @ CHR ''.'' # e) (CHR ''/'') = int (length pre) - 1"
    using assms(1-3) by (intro rfind_sep) auto
  have dot: "rfind (pre @ a @ CHR ''.'' # e) (CHR ''.'') = int (length pre + length a)"
    using rfind_append_Cons [OF assms(4), of "pre @ a"] by simp
  have h: "has_name_before (pre @ a @ CHR ''.'' # e) (length pre) (length pre + length a)
      \<longleftrightarrow> (\<exists>c\<in>set a. c \<noteq> CHR ''.'')"
    by (rule has_name_before_name)
  show ?thesis
    unfolding splitext_def Let_def sep dot
    using h by (simp add: nat_add_distrib)
qed

lemma splitext_without_dot:
  assumes "pre = [] \<or> last pre = CHR ''/''"
    and "CHR ''/'' \<notin> set name" and "CHR ''.'' \<notin> set name"
  shows "splitext (pre @ name) = (pre @ name, [])"
proof -
  have sep: "rfind (pre @ name) (CHR ''/'') = int (length pre) - 1"
    using assms(1,2) by (rule rfind_sep)
  have "rfind (pre @ name) (CHR ''.'') = rfind pre (CHR ''.'')"
    using assms(3) by (rule rfind_append_notin)
  then have "rfind (pre @ name) (CHR ''.'') \<le> int (length pre) - 1"
    using rfind_bounds [of pre "CHR ''.''"] by simp
  with sep show ?thesis by (simp add: splitext_def Let_def)
qed

lemma splitext_sgy: "splitext ''/d/a.sgy'' = (''/d/a'', ''.sgy'')"
  by (simp add: splitext_def has_name_before.simps)

lemma splitext_bad: "splitext ''/d/bad.sgy'' = (''/d/bad'', ''.sgy'')"
  by (simp add: splitext_def has_name_before.simps)

subsection \<open>The branches of one iteration\<close>

lemma iteration_missing:
  "\<not> os_path_exists env w p \<Longrightarrow> iteration cfg env p w = (Inr (), w, [Exists p])"
  by (simp add: iteration_def prog_simps)

lemma iteration_skip:
  "os_path_exists env w p \<Longrightarrow> os_path_exists env w (path_converted cfg p) \<Longrightarrow> \<not> RECREATE cfg \<Longrightarrow>
   iteration cfg env p w =
     (Inr (), w, [Exists p, Exists (path_converted cfg p), Print (skip_notice cfg p)])"
  by (simp add: iteration_def prog_simps skip_notice_def)

lemma iteration_dry:
  "os_path_exists env w p \<Longrightarrow> \<not> (os_path_exists env w (path_converted cfg p) \<and> \<not> RECREATE cfg) \<Longrightarrow>
   DRY_RUN cfg \<Longrightarrow>
   iteration cfg env p w =
     (Inr (), w, [Exists p, Exists (path_converted cfg p), Print (dry_run_report cfg p)])"
  by (auto simp add: iteration_def prog_simps dry_run_report_def)

lemma iteration_construct_raises:
  assumes "gates_pass cfg env p w"
    "SeismicGeometry env p (HEADERS_POST_FULL env) (INDEX_POST env) True True True w = (Inl e, w')"
  shows "iteration cfg env p w = (Inl e, w', [Exists p, Exists (path_converted cfg p)] @ banner cfg p @
      [Construct p (HEADERS_POST_FULL env) (INDEX_POST env) True True True])"
  using assms
  by (auto simp add: iteration_def prog_simps banner_def gates_pass_def)

lemma iteration_constructed:
  assumes "gates_pass cfg env p w"
    "SeismicGeometry env p (HEADERS_POST_FULL env) (INDEX_POST env) True True True w = (Inr g, w1)"
  shows "\<exists>r w' post. iteration cfg env p w = (r, w', [Exists p, Exists (path_converted cfg p)] @ banner cfg p @
      [Construct p (HEADERS_POST_FULL env) (INDEX_POST env) True True True, Quality_map g] @ post)"
  using assms
  by (auto simp add: iteration_def prog_simps banner_def gates_pass_def split: prod.splits sum.splits)

lemma iteration_convert_raises_quiet:
  assumes "gates_pass cfg env p w" "\<not> SHOW cfg"
    "SeismicGeometry env p (HEADERS_POST_FULL env) (INDEX_POST env) True True True w
       = (Inr geometry, w1)"
    "quality_map env geometry w1 = (Inr (), w2)"
    "geometry_convert env geometry (FORMAT cfg) (QUANTIZE cfg) w2 = (Inl e, w')"
  shows "iteration cfg env p w
       = (Inl e, w',
          [Exists p, Exists (path_converted cfg p),
           Construct p (HEADERS_POST_FULL env) (INDEX_POST env) True True True,
           Quality_map geometry, Convert geometry (FORMAT cfg) (QUANTIZE cfg)])"
  using assms by (auto simp add: iteration_def prog_simps gates_pass_def)

lemma iteration_convert_raises_shown:
  assumes "gates_pass cfg env p w" "SHOW cfg"
    "SeismicGeometry env p (HEADERS_POST_FULL env) (INDEX_POST env) True True True w
       = (Inr geometry, w1)"
    "quality_map env geometry w1 = (Inr (), w2)"
    "geometry_print env geometry w2 = (Inr (), w3)"
    "geometry_print_textual env geometry w3 = (Inr (), w4)"
    "geometry_show env geometry w4 = (Inr (), w5)"
    "geometry_show_quality_map env geometry w5 = (Inr (), w6)"
    "plt_show env w6 = (Inr (), w7)"
    "geometry_convert env geometry (FORMAT cfg) (QUANTIZE cfg) w7 = (Inl e, w')"
  shows "iteration cfg env p w
       = (Inl e, w',
          [Exists p, Exists (path_converted cfg p)] @ banner cfg p
          @ [Construct p (HEADERS_POST_FULL env) (INDEX_POST env) True True True,
             Quality_map geometry, Geometry_print geometry, Geometry_print_textual geometry,
             Geometry_show geometry, Geometry_show_quality_map geometry, Plt_show,
             Convert geometry (FORMAT cfg) (QUANTIZE cfg)])"
  using assms by (auto simp add: iteration_def prog_simps gates_pass_def banner_def)

lemma iteration_library_call:
  assumes "iteration cfg env p w = (r, w', evs)" "e \<in> set evs" "is_library_call e"
  shows "gates_pass cfg env p w"
proof (rule ccontr)
  assume "\<not> gates_pass cfg env p w"
  then consider "\<not> os_path_exists env w p"
    | "os_path_exists env w p" "os_path_exists env w (path_converted cfg p)" "\<not> RECREATE cfg"
    | "os_path_exists env w p" "\<not> (os_path_exists env w (path_converted cfg p) \<and> \<not> RECREATE cfg)" "DRY_RUN cfg"
    by (auto simp: gates_pass_def)
  then show False
  proof cases
    case 1
    with assms show False by (auto simp: iteration_missing)
  next
    case 2
    with assms show False by (auto simp: iteration_skip)
  next
    case 3
    with assms show False by (auto simp: iteration_dry)
  qed
qed

lemma notice_not_report: "skip_notice cfg p \<noteq> dry_run_report cfg' p'"
proof
  assume "skip_notice cfg p = dry_run_report cfg' p'"
  then have "rev (skip_notice cfg p) ! 1 = rev (dry_run_report cfg' p') ! 1" by simp
  then show False by (simp add: skip_notice_def dry_run_report_def)
qed

subsection \<open>Runs of the concrete environment\<close>

lemma sample_exists [simp]: "os_path_exists sample_env w p \<longleftrightarrow> p \<in> set w"
  by (simp add: sample_env_def)

lemma sample_headers:
  "HEADERS_POST_FULL sample_env = [''INLINE_3D'', ''CROSSLINE_3D'', ''CDP_X'', ''CDP_Y'']"
  "INDEX_POST sample_env = [''INLINE_3D'', ''CROSSLINE_3D'']"
  by (simp_all add: sample_env_def)

lemma sample_flags:
  "\<not> SHOW sample_cfg" "\<not> DRY_RUN sample_cfg" "\<not> RECREATE sample_cfg"
  "FORMAT sample_cfg = ''hdf5''" "\<not> QUANTIZE sample_cfg"
  by (simp_all add: sample_cfg_def)

lemma sample_constructs:
  "SeismicGeometry sample_env ''/d/a.sgy'' hs ix cs sp rc w
     = (Inr ''/d/a.sgy'', w @ [''/d/a.meta''])"
  by (simp add: sample_env_def splitext_sgy)

lemma sample_construct_raises:
  "SeismicGeometry sample_env ''/d/bad.sgy'' hs ix cs sp rc w = (Inl (Exn ''ValueError''), w)"
  by (simp add: sample_env_def)

lemma sample_diagnostics:
  "quality_map sample_env g w = (Inr (), w)"
  "geometry_print sample_env g w = (Inr (), w)"
  "geometry_print_textual sample_env g w = (Inr (), w)"
  "geometry_show sample_env g w = (Inr (), w)"
  "geometry_show_quality_map sample_env g w = (Inr (), w)"
  "plt_show sample_env w = (Inr (), w)"
  by (simp_all add: sample_env_def)

lemma sample_convert_raises:
  "geometry_convert sample_env g ''zarr'' q w = (Inl (Exn ''ValueError''), w)"
  by (simp add: sample_env_def)


lemma path_converted_sample: "path_converted sample_cfg ''/d/a.sgy'' = ''/d/a.hdf5''"
  by (simp add: path_converted_def splitext_sgy sample_cfg_def)

lemma path_converted_sample_flags [simp]:
  "path_converted (sample_cfg\<lparr>DRY_RUN := d\<rparr>) ''/d/a.sgy'' = ''/d/a.hdf5''"
  "path_converted (sample_cfg\<lparr>SHOW := s\<rparr>) ''/d/a.sgy'' = ''/d/a.hdf5''"
  "path_converted (sample_cfg\<lparr>RECREATE := r\<rparr>) ''/d/a.sgy'' = ''/d/a.hdf5''"
  by (simp_all add: path_converted_def splitext_sgy sample_cfg_def)


lemma sample_iteration_converts:
  "iteration sample_cfg sample_env ''/d/a.sgy'' [''/d/a.sgy'']
     = (Inr (), [''/d/a.sgy'', ''/d/a.meta'', ''/d/a.hdf5''],
        [Exists ''/d/a.sgy'', Exists ''/d/a.hdf5'',
         Construct ''/d/a.sgy'' [''INLINE_3D'', ''CROSSLINE_3D'', ''CDP_X'', ''CDP_Y'']
           [''INLINE_3D'', ''CROSSLINE_3D''] True True True,
         Quality_map ''/d/a.sgy'', Convert ''/d/a.sgy'' ''hdf5'' False])"
  by (simp add: iteration_def prog_simps path_converted_def sample_env_def sample_cfg_def
       splitext_sgy)


subsection \<open>The converted path\<close>

text \<open>
  C1. The converted path is a function of the cube path, \<open>FORMAT\<close> and \<open>QUANTIZE\<close>
  alone: it is the cube path without its extension, then a period, then \<open>q\<close> exactly when
  \<open>QUANTIZE\<close> holds, then the format name. What is taken off is settled for every
  path. Write the path as a directory part (empty, or ending in the separator) followed by
  a file name without separator. When the file name has a period, with \<open>e\<close> the part after
  its last period and \<open>a\<close> the part before it, the extension is that period with
  \<open>e\<close> if \<open>a\<close> has a character other than a period, and nothing is taken off if
  \<open>a\<close> is empty or all periods (a hidden file such as \<^verbatim>\<open>.sgy\<close>). When the file
  name has no period, nothing is taken off. Two configurations that agree on \<open>FORMAT\<close>
  and \<open>QUANTIZE\<close> give the same converted path, whatever their other flags.
\<close>

theorem path_converted_pure:
  "path_converted cfg p
     = fst (splitext p) @ ''.'' @ (if QUANTIZE cfg then ''q'' else '''') @ FORMAT cfg
   \<and> (\<forall>pre a e.
        p = pre @ a @ CHR ''.'' # e \<and> (pre = [] \<or> last pre = CHR ''/'')
        \<and> CHR ''/'' \<notin> set a \<and> CHR ''/'' \<notin> set e \<and> CHR ''.'' \<notin> set e
        \<longrightarrow> splitext p = (if \<exists>c\<in>set a. c \<noteq> CHR ''.'' then (pre @ a, CHR ''.'' # e) else (p, []))
          \<and> path_converted cfg p
              = (if \<exists>c\<in>set a. c \<noteq> CHR ''.'' then pre @ a else p)
                @ ''.'' @ (if QUANTIZE cfg then ''q'' else '''') @ FORMAT cfg)
   \<and> (\<forall>pre name.
        p = pre @ name \<and> (pre = [] \<or> last pre = CHR ''/'')
        \<and> CHR ''/'' \<notin> set name \<and> CHR ''.'' \<notin> set name
        \<longrightarrow> splitext p = (p, [])
          \<and> path_converted cfg p = p @ ''.'' @ (if QUANTIZE cfg then ''q'' else '''') @ FORMAT cfg)
   \<and> fst (splitext p) @ snd (splitext p) = p
   \<and> (snd (splitext p) = []
      \<or> hd (snd (splitext p)) = CHR ''.'' \<and> CHR ''.'' \<notin> set (tl (snd (splitext p)))
        \<and> CHR ''/'' \<notin> set (snd (splitext p)))
   \<and> (FORMAT cfg' = FORMAT cfg \<and> QUANTIZE cfg' = QUANTIZE cfg
      \<longrightarrow> path_converted cfg' p = path_converted cfg p)"
proof (intro conjI allI impI)
  show "path_converted cfg p
     = fst (splitext p) @ ''.'' @ (if QUANTIZE cfg then ''q'' else '''') @ FORMAT cfg"
    by (simp add: path_converted_def)
next
  fix pre a e
  assume h: "p = pre @ a @ CHR ''.'' # e \<and> (pre = [] \<or> last pre = CHR ''/'')
        \<and> CHR ''/'' \<notin> set a \<and> CHR ''/'' \<notin> set e \<and> CHR ''.'' \<notin> set e"
  then have "splitext (pre @ a @ CHR ''.'' # e)
       = (if \<exists>c\<in>set a. c \<noteq> CHR ''.'' then (pre @ a, CHR ''.'' # e)
          else (pre @ a @ CHR ''.'' # e, []))"
    by (intro splitext_with_dot) simp_all
  with h show s: "splitext p
      = (if \<exists>c\<in>set a. c \<noteq> CHR ''.'' then (pre @ a, CHR ''.'' # e) else (p, []))"
    by simp
  show "path_converted cfg p
              = (if \<exists>c\<in>set a. c \<noteq> CHR ''.'' then pre @ a else p)
                @ ''.'' @ (if QUANTIZE cfg then ''q'' else '''') @ FORMAT cfg"
    unfolding path_converted_def s by simp
next
  fix pre name
  assume h: "p = pre @ name \<and> (pre = [] \<or> last pre = CHR ''/'')
        \<and> CHR ''/'' \<notin> set name \<and> CHR ''.'' \<notin> set name"
  then have "splitext (pre @ name) = (pre @ name, [])"
    by (intro splitext_without_dot) simp_all
  with h show s: "splitext p = (p, [])" by simp
  show "path_converted cfg p = p @ ''.'' @ (if QUANTIZE cfg then ''q'' else '''') @ FORMAT cfg"
    unfolding path_converted_def s by simp
next
  show "fst (splitext p) @ snd (splitext p) = p" by (rule splitext_concat)
next
  show "snd (splitext p) = []
      \<or> hd (snd (splitext p)) = CHR ''.'' \<and> CHR ''.'' \<notin> set (tl (snd (splitext p)))
        \<and> CHR ''/'' \<notin> set (snd (splitext p))"
    using splitext_ext [of p] by blast
next
  assume "FORMAT cfg' = FORMAT cfg \<and> QUANTIZE cfg' = QUANTIZE cfg"
  then show "path_converted cfg' p = path_converted cfg p" by (simp add: path_converted_def)
qed

theorem path_converted_pure_witness:
  "splitext ''/d/a.sgy'' = (''/d/a'', ''.sgy'')
   \<and> path_converted sample_cfg ''/d/a.sgy'' = ''/d/a.hdf5''
   \<and> path_converted (sample_cfg\<lparr>QUANTIZE := True, FORMAT := ''blosc''\<rparr>) ''/d/a.sgy''
       = ''/d/a.qblosc''
   \<and> splitext ''/d/a.tar.gz'' = (''/d/a.tar'', ''.gz'')
   \<and> splitext ''/d/.sgy'' = (''/d/.sgy'', '''')
   \<and> path_converted (sample_cfg\<lparr>QUANTIZE := True, FORMAT := ''blosc''\<rparr>) ''/d/.sgy''
       = ''/d/.sgy.qblosc''
   \<and> splitext ''/d.x/abc'' = (''/d.x/abc'', '''')
   \<and> path_converted sample_cfg ''/d.x/abc'' = ''/d.x/abc.hdf5''
   \<and> FORMAT (sample_cfg\<lparr>RECREATE := True, DRY_RUN := True\<rparr>) = FORMAT sample_cfg
   \<and> QUANTIZE (sample_cfg\<lparr>RECREATE := True, DRY_RUN := True\<rparr>) = QUANTIZE sample_cfg
   \<and> path_converted (sample_cfg\<lparr>RECREATE := True, DRY_RUN := True\<rparr>) ''/d/a.sgy''
       = ''/d/a.hdf5''"
proof -
  let ?qb = "sample_cfg\<lparr>QUANTIZE := True, FORMAT := ''blosc''\<rparr>"
  let ?rd = "sample_cfg\<lparr>RECREATE := True, DRY_RUN := True\<rparr>"
  have f: "FORMAT sample_cfg = ''hdf5''" "\<not> QUANTIZE sample_cfg" "QUANTIZE ?qb"
    "FORMAT ?qb = ''blosc''" "FORMAT ?rd = FORMAT sample_cfg" "QUANTIZE ?rd = QUANTIZE sample_cfg"
    by (simp_all add: sample_cfg_def)
  have a: "splitext ''/d/a.sgy'' = (''/d/a'', ''.sgy'')
      \<and> path_converted sample_cfg ''/d/a.sgy'' = ''/d/a.hdf5''"
    using path_converted_pure [of sample_cfg "''/d/a.sgy''" sample_cfg,
        THEN conjunct2, THEN conjunct1, rule_format, of "''/d/''" "''a''" "''sgy''"] f
    by simp
  have b: "path_converted ?qb ''/d/a.sgy'' = ''/d/a.qblosc''"
    using path_converted_pure [of ?qb "''/d/a.sgy''" sample_cfg,
        THEN conjunct2, THEN conjunct1, rule_format, of "''/d/''" "''a''" "''sgy''"] f
    by simp
  have c: "splitext ''/d/a.tar.gz'' = (''/d/a.tar'', ''.gz'')"
    using path_converted_pure [of sample_cfg "''/d/a.tar.gz''" sample_cfg,
        THEN conjunct2, THEN conjunct1, rule_format, of "''/d/''" "''a.tar''" "''gz''"]
    by simp
  have d: "splitext ''/d/.sgy'' = (''/d/.sgy'', '''')
      \<and> path_converted ?qb ''/d/.sgy'' = ''/d/.sgy.qblosc''"
    using path_converted_pure [of ?qb "''/d/.sgy''" sample_cfg,
        THEN conjunct2, THEN conjunct1, rule_format, of "''/d/''" "''''" "''sgy''"] f
    by simp
  have e: "splitext ''/d.x/abc'' = (''/d.x/abc'', '''')
      \<and> path_converted sample_cfg ''/d.x/abc'' = ''/d.x/abc.hdf5''"
    using path_converted_pure [of sample_cfg "''/d.x/abc''" sample_cfg,
        THEN conjunct2, THEN conjunct2, THEN conjunct1, rule_format, of "''/d.x/''" "''abc''"] f
    by simp
  have g: "path_converted ?rd ''/d/a.sgy'' = ''/d/a.hdf5''"
    using path_converted_pure [of sample_cfg "''/d/a.sgy''" ?rd] f a by simp
  from a b c d e f(5,6) g show ?thesis by simp
qed

subsection \<open>Dry run\<close>

lemma convert_cubes_dry:
  assumes "DRY_RUN cfg"
  shows "\<exists>evs. convert_cubes cfg env paths w = (Inr (), w, evs)
               \<and> (\<forall>e\<in>set evs. \<not> is_library_call e)"
proof (induction paths)
  case Nil
  then show ?case by (simp add: convert_cubes_def for_each_Nil)
next
  case (Cons p ps)
  obtain r w' evs where it: "iteration cfg env p w = (r, w', evs)"
    by (cases "iteration cfg env p w") auto
  have "\<not> gates_pass cfg env p w" using assms by (simp add: gates_pass_def)
  then have none: "\<forall>e\<in>set evs. \<not> is_library_call e"
    using iteration_library_call [OF it] by blast
  have "r = Inr () \<and> w' = w"
    using it assms
    by (cases "os_path_exists env w p";
        cases "os_path_exists env w (path_converted cfg p) \<and> \<not> RECREATE cfg")
       (auto simp: iteration_missing iteration_skip iteration_dry)
  with it none Cons.IH show ?case
    by (auto simp: convert_cubes_def for_each_Cons)
qed

text \<open>
  C2. Under \<open>DRY_RUN\<close> nothing but queries and prints happens for a cube: the
  iteration returns normally, leaves the world exactly as it found it and calls neither the
  constructor nor the conversion nor any other library operation, whatever the existence
  checks answer and whatever \<open>RECREATE\<close> is. The same holds for the whole loop, which
  therefore cannot fail.
\<close>

theorem dry_run_touches_nothing:
  assumes "DRY_RUN cfg"
  shows "(\<exists>evs. iteration cfg env p w = (Inr (), w, evs) \<and> (\<forall>e\<in>set evs. \<not> is_library_call e))
       \<and> (\<exists>evs. convert_cubes cfg env paths w = (Inr (), w, evs)
               \<and> (\<forall>e\<in>set evs. \<not> is_library_call e))"
proof
  from convert_cubes_dry [OF assms, of env "[p]" w]
  show "\<exists>evs. iteration cfg env p w = (Inr (), w, evs) \<and> (\<forall>e\<in>set evs. \<not> is_library_call e)"
    by (auto simp: convert_cubes_def for_each_Cons for_each_Nil split: prod.splits sum.splits)
  from convert_cubes_dry [OF assms]
  show "\<exists>evs. convert_cubes cfg env paths w = (Inr (), w, evs)
               \<and> (\<forall>e\<in>set evs. \<not> is_library_call e)" .
qed

theorem dry_run_touches_nothing_witness:
  "DRY_RUN (sample_cfg\<lparr>DRY_RUN := True\<rparr>)
   \<and> iteration (sample_cfg\<lparr>DRY_RUN := True\<rparr>) sample_env ''/d/a.sgy'' [''/d/a.sgy'']
       = (Inr (), [''/d/a.sgy''],
          [Exists ''/d/a.sgy'', Exists ''/d/a.hdf5'',
           Print ''Will convert ::: /d/a.sgy\<newline>to           ::: /d/a.hdf5\<newline>\<newline>''])
   \<and> fst (convert_cubes (sample_cfg\<lparr>DRY_RUN := True\<rparr>) sample_env [''/d/a.sgy'', ''/d/bad.sgy'']
            [''/d/a.sgy'', ''/d/bad.sgy'']) = Inr ()
   \<and> fst (snd (convert_cubes (sample_cfg\<lparr>DRY_RUN := True\<rparr>) sample_env [''/d/a.sgy'', ''/d/bad.sgy'']
            [''/d/a.sgy'', ''/d/bad.sgy''])) = [''/d/a.sgy'', ''/d/bad.sgy'']"
proof -
  have d: "DRY_RUN (sample_cfg\<lparr>DRY_RUN := True\<rparr>)" by simp
  have pc: "path_converted (sample_cfg\<lparr>DRY_RUN := True\<rparr>) ''/d/a.sgy'' = ''/d/a.hdf5''"
    by (simp add: path_converted_def splitext_sgy sample_cfg_def)
  have "iteration (sample_cfg\<lparr>DRY_RUN := True\<rparr>) sample_env ''/d/a.sgy'' [''/d/a.sgy'']
       = (Inr (), [''/d/a.sgy''],
          [Exists ''/d/a.sgy'', Exists ''/d/a.hdf5'',
           Print ''Will convert ::: /d/a.sgy\<newline>to           ::: /d/a.hdf5\<newline>\<newline>''])"
    by (simp add: iteration_dry pc dry_run_report_def)
  with d dry_run_touches_nothing [OF d, of sample_env "''/d/a.sgy''" "[''/d/a.sgy'', ''/d/bad.sgy'']"
      "[''/d/a.sgy'', ''/d/bad.sgy'']"]
  show ?thesis by auto
qed

subsection \<open>The skip notice\<close>

text \<open>
  C3 (as amended). For every cube path whose converted path exists, with \<open>RECREATE\<close> off,
  the iteration makes no call into the geometry library, returns normally and leaves the
  world, the converted file included, as it found it. It prints the notice that the
  converted file already exists when the cube path itself exists, and prints nothing when
  the cube path is missing.
\<close>

theorem skip_existing_without_recreate:
  assumes "os_path_exists env w (path_converted cfg p)"
    and "\<not> RECREATE cfg"
  shows "iteration cfg env p w
           = (Inr (), w,
              if os_path_exists env w p
              then [Exists p, Exists (path_converted cfg p),
                    Print (path_converted cfg p @ '' already exists, skipping\<newline>'')]
              else [Exists p])
       \<and> (\<forall>e\<in>set (snd (snd (iteration cfg env p w))). \<not> is_library_call e)"
proof -
  have "iteration cfg env p w
           = (Inr (), w,
              if os_path_exists env w p
              then [Exists p, Exists (path_converted cfg p),
                    Print (path_converted cfg p @ '' already exists, skipping\<newline>'')]
              else [Exists p])"
    using assms by (simp add: iteration_skip iteration_missing skip_notice_def)
  then show ?thesis by simp
qed

theorem skip_existing_without_recreate_witness:
  "os_path_exists sample_env [''/d/a.sgy'', ''/d/a.hdf5''] (path_converted sample_cfg ''/d/a.sgy'')
   \<and> \<not> RECREATE sample_cfg
   \<and> iteration sample_cfg sample_env ''/d/a.sgy'' [''/d/a.sgy'', ''/d/a.hdf5'']
       = (Inr (), [''/d/a.sgy'', ''/d/a.hdf5''],
          [Exists ''/d/a.sgy'', Exists ''/d/a.hdf5'', Print ''/d/a.hdf5 already exists, skipping\<newline>''])
   \<and> os_path_exists sample_env [''/d/b.sgy'', ''/d/a.hdf5''] (path_converted sample_cfg ''/d/a.sgy'')
   \<and> iteration sample_cfg sample_env ''/d/a.sgy'' [''/d/b.sgy'', ''/d/a.hdf5'']
       = (Inr (), [''/d/b.sgy'', ''/d/a.hdf5''], [Exists ''/d/a.sgy''])"
proof -
  have a: "os_path_exists sample_env [''/d/a.sgy'', ''/d/a.hdf5''] (path_converted sample_cfg ''/d/a.sgy'')"
    and b: "os_path_exists sample_env [''/d/b.sgy'', ''/d/a.hdf5''] (path_converted sample_cfg ''/d/a.sgy'')"
    by (simp_all add: path_converted_sample)
  note c = sample_flags(3)
  from a b c skip_existing_without_recreate [OF a c]
    skip_existing_without_recreate [OF b c]
  show ?thesis by (simp add: path_converted_sample)
qed

text \<open>
  C3 as stated does not hold for every cube path whose converted path exists: when the
  cube path itself is missing, the first \<^verbatim>\<open>continue\<close> is taken and no notice is
  printed, although the converted file is there and \<open>RECREATE\<close> is off.
\<close>

theorem missing_source_prints_no_notice:
  "os_path_exists sample_env [''/d/a.hdf5''] (path_converted sample_cfg ''/d/a.sgy'')
   \<and> \<not> RECREATE sample_cfg
   \<and> iteration sample_cfg sample_env ''/d/a.sgy'' [''/d/a.hdf5'']
       = (Inr (), [''/d/a.hdf5''], [Exists ''/d/a.sgy''])"
  by (simp add: path_converted_sample iteration_missing) (simp add: sample_cfg_def)

subsection \<open>Missing sources\<close>

text \<open>
  C4. A cube path that does not exist is passed over silently: the iteration asks once
  whether the path exists and then returns normally, with no print, no call into the
  geometry library and the world unchanged; the loop goes on with the remaining paths.
\<close>

theorem missing_source_skipped:
  assumes "\<not> os_path_exists env w p"
  shows "iteration cfg env p w = (Inr (), w, [Exists p])
       \<and> convert_cubes cfg env (p # rest) w
           = (case convert_cubes cfg env rest w of (r, w', evs) \<Rightarrow> (r, w', Exists p # evs))"
  using assms by (simp add: iteration_missing convert_cubes_def for_each_Cons)

theorem missing_source_skipped_witness:
  "\<not> os_path_exists sample_env [''/d/c.sgy''] ''/d/a.sgy''
   \<and> iteration (sample_cfg\<lparr>RECREATE := True, SHOW := True\<rparr>) sample_env ''/d/a.sgy'' [''/d/c.sgy'']
       = (Inr (), [''/d/c.sgy''], [Exists ''/d/a.sgy''])"
proof -
  have a: "\<not> os_path_exists sample_env [''/d/c.sgy''] ''/d/a.sgy''" by simp
  from a missing_source_skipped [OF a, of "sample_cfg\<lparr>RECREATE := True, SHOW := True\<rparr>"]
  show ?thesis by simp
qed

subsection \<open>Order of the checks\<close>

text \<open>
  C5. The three checks are made in the order missing source, converted file present without
  \<open>RECREATE\<close>, dry run: a missing source is skipped silently whatever the other two say,
  an existing converted file without \<open>RECREATE\<close> gives the notice even under
  \<open>DRY_RUN\<close>, and the dry-run report comes only after both. When all three let the cube
  through, the constructor is called after both existence queries; and whenever an
  iteration makes any call into the geometry library, all three checks have let the cube
  through, so a skipped cube never reaches the constructor.
\<close>

theorem gates_in_order:
  "(\<not> os_path_exists env w p \<longrightarrow> iteration cfg env p w = (Inr (), w, [Exists p]))
   \<and> (os_path_exists env w p \<and> os_path_exists env w (path_converted cfg p) \<and> \<not> RECREATE cfg
      \<longrightarrow> iteration cfg env p w
            = (Inr (), w, [Exists p, Exists (path_converted cfg p), Print (skip_notice cfg p)]))
   \<and> (os_path_exists env w p
      \<and> \<not> (os_path_exists env w (path_converted cfg p) \<and> \<not> RECREATE cfg) \<and> DRY_RUN cfg
      \<longrightarrow> iteration cfg env p w
            = (Inr (), w, [Exists p, Exists (path_converted cfg p), Print (dry_run_report cfg p)]))
   \<and> (os_path_exists env w p
      \<and> \<not> (os_path_exists env w (path_converted cfg p) \<and> \<not> RECREATE cfg) \<and> \<not> DRY_RUN cfg
      \<longrightarrow> (\<exists>r w' rest. iteration cfg env p w
            = (r, w', [Exists p, Exists (path_converted cfg p)] @ banner cfg p
                 @ Construct p (HEADERS_POST_FULL env) (INDEX_POST env) True True True # rest)))
   \<and> (\<forall>r w' evs. iteration cfg env p w = (r, w', evs) \<and> (\<exists>e\<in>set evs. is_library_call e)
      \<longrightarrow> os_path_exists env w p
          \<and> \<not> (os_path_exists env w (path_converted cfg p) \<and> \<not> RECREATE cfg)
          \<and> \<not> DRY_RUN cfg)"
proof (intro conjI impI allI)
  assume "\<not> os_path_exists env w p"
  then show "iteration cfg env p w = (Inr (), w, [Exists p])" by (rule iteration_missing)
next
  assume "os_path_exists env w p \<and> os_path_exists env w (path_converted cfg p) \<and> \<not> RECREATE cfg"
  then show "iteration cfg env p w
      = (Inr (), w, [Exists p, Exists (path_converted cfg p), Print (skip_notice cfg p)])"
    by (simp add: iteration_skip)
next
  assume "os_path_exists env w p
      \<and> \<not> (os_path_exists env w (path_converted cfg p) \<and> \<not> RECREATE cfg) \<and> DRY_RUN cfg"
  then show "iteration cfg env p w
      = (Inr (), w, [Exists p, Exists (path_converted cfg p), Print (dry_run_report cfg p)])"
    by (simp add: iteration_dry)
next
  assume "os_path_exists env w p
      \<and> \<not> (os_path_exists env w (path_converted cfg p) \<and> \<not> RECREATE cfg) \<and> \<not> DRY_RUN cfg"
  then have g: "gates_pass cfg env p w" by (simp add: gates_pass_def)
  obtain res w1 where c:
    "SeismicGeometry env p (HEADERS_POST_FULL env) (INDEX_POST env) True True True w = (res, w1)"
    by (cases "SeismicGeometry env p (HEADERS_POST_FULL env) (INDEX_POST env) True True True w")
  show "\<exists>r w' rest. iteration cfg env p w
            = (r, w', [Exists p, Exists (path_converted cfg p)] @ banner cfg p
                 @ Construct p (HEADERS_POST_FULL env) (INDEX_POST env) True True True # rest)"
  proof (cases res)
    case (Inl e)
    with c iteration_construct_raises [OF g, of e w1] show ?thesis by simp
  next
    case (Inr geometry)
    with c iteration_constructed [OF g, of geometry w1] show ?thesis by auto
  qed
next
  fix r w' evs
  assume "iteration cfg env p w = (r, w', evs) \<and> (\<exists>e\<in>set evs. is_library_call e)"
  then obtain e where "iteration cfg env p w = (r, w', evs)" "e \<in> set evs" "is_library_call e"
    by auto
  then have "gates_pass cfg env p w" by (rule iteration_library_call)
  then show "os_path_exists env w p"
    and "\<not> (os_path_exists env w (path_converted cfg p) \<and> \<not> RECREATE cfg)"
    and "\<not> DRY_RUN cfg"
    by (simp_all add: gates_pass_def)
qed

theorem gates_in_order_witness:
  "iteration (sample_cfg\<lparr>DRY_RUN := True\<rparr>) sample_env ''/d/a.sgy'' [''/d/a.hdf5'']
     = (Inr (), [''/d/a.hdf5''], [Exists ''/d/a.sgy''])
   \<and> iteration (sample_cfg\<lparr>DRY_RUN := True\<rparr>) sample_env ''/d/a.sgy'' [''/d/a.sgy'', ''/d/a.hdf5'']
     = (Inr (), [''/d/a.sgy'', ''/d/a.hdf5''],
        [Exists ''/d/a.sgy'', Exists ''/d/a.hdf5'', Print ''/d/a.hdf5 already exists, skipping\<newline>''])
   \<and> iteration (sample_cfg\<lparr>DRY_RUN := True\<rparr>) sample_env ''/d/a.sgy'' [''/d/a.sgy'']
     = (Inr (), [''/d/a.sgy''],
        [Exists ''/d/a.sgy'', Exists ''/d/a.hdf5'',
         Print ''Will convert ::: /d/a.sgy\<newline>to           ::: /d/a.hdf5\<newline>\<newline>''])
   \<and> (\<exists>e\<in>set (snd (snd (iteration sample_cfg sample_env ''/d/a.sgy'' [''/d/a.sgy'']))).
        is_library_call e)
   \<and> os_path_exists sample_env [''/d/a.sgy''] ''/d/a.sgy''
   \<and> \<not> os_path_exists sample_env [''/d/a.sgy''] (path_converted sample_cfg ''/d/a.sgy'')
   \<and> \<not> DRY_RUN sample_cfg"
proof -
  have c: "\<exists>e\<in>set (snd (snd (iteration sample_cfg sample_env ''/d/a.sgy'' [''/d/a.sgy'']))).
        is_library_call e"
    by (simp add: sample_iteration_converts)
  have d: "DRY_RUN (sample_cfg\<lparr>DRY_RUN := True\<rparr>)" "\<not> RECREATE (sample_cfg\<lparr>DRY_RUN := True\<rparr>)"
    "\<not> DRY_RUN sample_cfg"
    by (simp_all add: sample_cfg_def)
  from c d
    gates_in_order [of sample_env "[''/d/a.hdf5'']" "''/d/a.sgy''" "sample_cfg\<lparr>DRY_RUN := True\<rparr>"]
    gates_in_order [of sample_env "[''/d/a.sgy'', ''/d/a.hdf5'']" "''/d/a.sgy''"
      "sample_cfg\<lparr>DRY_RUN := True\<rparr>"]
    gates_in_order [of sample_env "[''/d/a.sgy'']" "''/d/a.sgy''" "sample_cfg\<lparr>DRY_RUN := True\<rparr>"]
    gates_in_order [of sample_env "[''/d/a.sgy'']" "''/d/a.sgy''" sample_cfg]
  show ?thesis
    by (simp add: skip_notice_def dry_run_report_def path_converted_sample)
qed

subsection \<open>The diagnostics flag\<close>

lemma path_converted_SHOW [simp]: "path_converted (cfg\<lparr>SHOW := b\<rparr>) p = path_converted cfg p"
  by (simp add: path_converted_def)

lemma gates_pass_SHOW [simp]: "gates_pass (cfg\<lparr>SHOW := b\<rparr>) env p w = gates_pass cfg env p w"
  by (simp add: gates_pass_def)


lemma filter_banner [simp]: "filter (\<lambda>e. \<not> is_diagnostic e) (banner cfg p) = []"
  by (simp add: banner_def)






subsection \<open>Exceptions\<close>

lemma convert_cubes_aborts:
  assumes "convert_cubes cfg env before w = (Inr (), w1, ev1)"
    "iteration cfg env p w1 = (Inl e, w', ev2)"
  shows "convert_cubes cfg env (before @ p # rest) w = (Inl e, w', ev1 @ ev2)"
  using assms by (simp add: convert_cubes_def for_each_append for_each_Cons)

text \<open>
  C7. An exception raised by the constructor or by the conversion is the outcome of the
  iteration, unchanged, and the world is the one the failing call left: the failing call is
  the last event, so nothing is handled and nothing is cleaned up. An iteration that ends
  in an exception ends the loop with that exception, that world and the events so far,
  whatever paths remain.
\<close>

theorem exceptions_propagate:
  "(gates_pass cfg env p w
      \<and> SeismicGeometry env p (HEADERS_POST_FULL env) (INDEX_POST env) True True True w
          = (Inl e, w')
    \<longrightarrow> iteration cfg env p w
          = (Inl e, w', [Exists p, Exists (path_converted cfg p)] @ banner cfg p
               @ [Construct p (HEADERS_POST_FULL env) (INDEX_POST env) True True True]))
   \<and> (gates_pass cfg env p w \<and> \<not> SHOW cfg
      \<and> SeismicGeometry env p (HEADERS_POST_FULL env) (INDEX_POST env) True True True w
          = (Inr geometry, w1)
      \<and> quality_map env geometry w1 = (Inr (), w2)
      \<and> geometry_convert env geometry (FORMAT cfg) (QUANTIZE cfg) w2 = (Inl e, w')
    \<longrightarrow> iteration cfg env p w
          = (Inl e, w',
             [Exists p, Exists (path_converted cfg p),
              Construct p (HEADERS_POST_FULL env) (INDEX_POST env) True True True,
              Quality_map geometry, Convert geometry (FORMAT cfg) (QUANTIZE cfg)]))
   \<and> (gates_pass cfg env p w \<and> SHOW cfg
      \<and> SeismicGeometry env p (HEADERS_POST_FULL env) (INDEX_POST env) True True True w
          = (Inr geometry, w1)
      \<and> quality_map env geometry w1 = (Inr (), w2)
      \<and> geometry_print env geometry w2 = (Inr (), w3)
      \<and> geometry_print_textual env geometry w3 = (Inr (), w4)
      \<and> geometry_show env geometry w4 = (Inr (), w5)
      \<and> geometry_show_quality_map env geometry w5 = (Inr (), w6)
      \<and> plt_show env w6 = (Inr (), w7)
      \<and> geometry_convert env geometry (FORMAT cfg) (QUANTIZE cfg) w7 = (Inl e, w')
    \<longrightarrow> iteration cfg env p w
          = (Inl e, w',
             [Exists p, Exists (path_converted cfg p)] @ banner cfg p
             @ [Construct p (HEADERS_POST_FULL env) (INDEX_POST env) True True True,
                Quality_map geometry, Geometry_print geometry, Geometry_print_textual geometry,
                Geometry_show geometry, Geometry_show_quality_map geometry, Plt_show,
                Convert geometry (FORMAT cfg) (QUANTIZE cfg)]))
   \<and> (convert_cubes cfg env before v = (Inr (), v1, ev1)
      \<and> iteration cfg env q v1 = (Inl e, v', ev2)
    \<longrightarrow> convert_cubes cfg env (before @ q # rest) v = (Inl e, v', ev1 @ ev2))"
  by (intro conjI impI)
     (simp add: iteration_construct_raises,
      simp add: iteration_convert_raises_quiet,
      elim conjE, rule iteration_convert_raises_shown, assumption+,
      simp add: convert_cubes_aborts)

theorem exceptions_propagate_witness:
  "iteration sample_cfg sample_env ''/d/bad.sgy'' [''/d/bad.sgy'']
     = (Inl (Exn ''ValueError''), [''/d/bad.sgy''],
        [Exists ''/d/bad.sgy'', Exists ''/d/bad.hdf5'',
         Construct ''/d/bad.sgy'' [''INLINE_3D'', ''CROSSLINE_3D'', ''CDP_X'', ''CDP_Y'']
           [''INLINE_3D'', ''CROSSLINE_3D''] True True True])
   \<and> iteration (sample_cfg\<lparr>FORMAT := ''zarr''\<rparr>) sample_env ''/d/a.sgy'' [''/d/a.sgy'']
     = (Inl (Exn ''ValueError''), [''/d/a.sgy'', ''/d/a.meta''],
        [Exists ''/d/a.sgy'', Exists ''/d/a.zarr'',
         Construct ''/d/a.sgy'' [''INLINE_3D'', ''CROSSLINE_3D'', ''CDP_X'', ''CDP_Y'']
           [''INLINE_3D'', ''CROSSLINE_3D''] True True True,
         Quality_map ''/d/a.sgy'', Convert ''/d/a.sgy'' ''zarr'' False])
   \<and> iteration (sample_cfg\<lparr>FORMAT := ''zarr'', SHOW := True\<rparr>) sample_env ''/d/a.sgy'' [''/d/a.sgy'']
     = (Inl (Exn ''ValueError''), [''/d/a.sgy'', ''/d/a.meta''],
        [Exists ''/d/a.sgy'', Exists ''/d/a.zarr'',
         Print (str_mul block 60 @ ''\<newline>''), Print (str_mul block 60 @ ''\<newline>''),
         Print ''Working with /d/a.sgy\<newline>'',
         Construct ''/d/a.sgy'' [''INLINE_3D'', ''CROSSLINE_3D'', ''CDP_X'', ''CDP_Y'']
           [''INLINE_3D'', ''CROSSLINE_3D''] True True True,
         Quality_map ''/d/a.sgy'', Geometry_print ''/d/a.sgy'', Geometry_print_textual ''/d/a.sgy'',
         Geometry_show ''/d/a.sgy'', Geometry_show_quality_map ''/d/a.sgy'', Plt_show,
         Convert ''/d/a.sgy'' ''zarr'' False])
   \<and> convert_cubes sample_cfg sample_env [''/d/a.sgy'', ''/d/bad.sgy'', ''/d/c.sgy'']
        [''/d/a.sgy'', ''/d/bad.sgy'', ''/d/c.sgy'']
     = (Inl (Exn ''ValueError''),
        [''/d/a.sgy'', ''/d/bad.sgy'', ''/d/c.sgy'', ''/d/a.meta'', ''/d/a.hdf5''],
        [Exists ''/d/a.sgy'', Exists ''/d/a.hdf5'',
         Construct ''/d/a.sgy'' [''INLINE_3D'', ''CROSSLINE_3D'', ''CDP_X'', ''CDP_Y'']
           [''INLINE_3D'', ''CROSSLINE_3D''] True True True,
         Quality_map ''/d/a.sgy'', Convert ''/d/a.sgy'' ''hdf5'' False,
         Exists ''/d/bad.sgy'', Exists ''/d/bad.hdf5'',
         Construct ''/d/bad.sgy'' [''INLINE_3D'', ''CROSSLINE_3D'', ''CDP_X'', ''CDP_Y'']
           [''INLINE_3D'', ''CROSSLINE_3D''] True True True])"
proof -
  let ?z = "sample_cfg\<lparr>FORMAT := ''zarr''\<rparr>"
  let ?zs = "sample_cfg\<lparr>FORMAT := ''zarr'', SHOW := True\<rparr>"
  let ?w = "[''/d/a.sgy'', ''/d/bad.sgy'', ''/d/c.sgy'']"
  let ?w1 = "[''/d/a.sgy'', ''/d/bad.sgy'', ''/d/c.sgy'', ''/d/a.meta'', ''/d/a.hdf5'']"
  have pb: "path_converted sample_cfg ''/d/bad.sgy'' = ''/d/bad.hdf5''"
    by (simp add: path_converted_def splitext_bad sample_cfg_def)
  have pz: "path_converted ?z ''/d/a.sgy'' = ''/d/a.zarr''"
    "path_converted ?zs ''/d/a.sgy'' = ''/d/a.zarr''"
    by (simp_all add: path_converted_def splitext_sgy sample_cfg_def)
  have flags: "\<not> SHOW ?z" "SHOW ?zs" "FORMAT ?z = ''zarr''" "FORMAT ?zs = ''zarr''"
    "\<not> QUANTIZE ?z" "\<not> QUANTIZE ?zs"
    by (simp_all add: sample_cfg_def)
  have g1: "gates_pass sample_cfg sample_env ''/d/bad.sgy'' [''/d/bad.sgy'']"
    by (simp add: gates_pass_def pb) (simp add: sample_cfg_def)
  have g1': "gates_pass sample_cfg sample_env ''/d/bad.sgy'' ?w1"
    by (simp add: gates_pass_def pb) (simp add: sample_cfg_def)
  have g2: "gates_pass ?z sample_env ''/d/a.sgy'' [''/d/a.sgy'']"
    "gates_pass ?zs sample_env ''/d/a.sgy'' [''/d/a.sgy'']"
    by (simp_all add: gates_pass_def pz) (simp_all add: sample_cfg_def)
  have first: "convert_cubes sample_cfg sample_env [''/d/a.sgy''] ?w
     = (Inr (), ?w1,
        [Exists ''/d/a.sgy'', Exists ''/d/a.hdf5'',
         Construct ''/d/a.sgy'' [''INLINE_3D'', ''CROSSLINE_3D'', ''CDP_X'', ''CDP_Y'']
           [''INLINE_3D'', ''CROSSLINE_3D''] True True True,
         Quality_map ''/d/a.sgy'', Convert ''/d/a.sgy'' ''hdf5'' False])"
    by (simp add: convert_cubes_def for_each_Cons for_each_Nil iteration_def prog_simps
          path_converted_def sample_env_def sample_cfg_def splitext_sgy)
  note a = exceptions_propagate [where cfg = sample_cfg and env = sample_env
      and p = "''/d/bad.sgy''" and w = "[''/d/bad.sgy'']" and e = "Exn ''ValueError''"
      and w' = "[''/d/bad.sgy'']", THEN conjunct1, rule_format]
  note b = exceptions_propagate [where cfg = ?z and env = sample_env
      and p = "''/d/a.sgy''" and w = "[''/d/a.sgy'']" and e = "Exn ''ValueError''"
      and w' = "[''/d/a.sgy'', ''/d/a.meta'']" and geometry = "''/d/a.sgy''"
      and ?w1.0 = "[''/d/a.sgy'', ''/d/a.meta'']" and ?w2.0 = "[''/d/a.sgy'', ''/d/a.meta'']",
      THEN conjunct2, THEN conjunct1, rule_format]
  note c = exceptions_propagate [where cfg = ?zs and env = sample_env
      and p = "''/d/a.sgy''" and w = "[''/d/a.sgy'']" and e = "Exn ''ValueError''"
      and w' = "[''/d/a.sgy'', ''/d/a.meta'']" and geometry = "''/d/a.sgy''"
      and ?w1.0 = "[''/d/a.sgy'', ''/d/a.meta'']" and ?w2.0 = "[''/d/a.sgy'', ''/d/a.meta'']"
      and ?w3.0 = "[''/d/a.sgy'', ''/d/a.meta'']" and ?w4.0 = "[''/d/a.sgy'', ''/d/a.meta'']"
      and ?w5.0 = "[''/d/a.sgy'', ''/d/a.meta'']" and ?w6.0 = "[''/d/a.sgy'', ''/d/a.meta'']"
      and ?w7.0 = "[''/d/a.sgy'', ''/d/a.meta'']",
      THEN conjunct2, THEN conjunct2, THEN conjunct1, rule_format]
  have bad: "iteration sample_cfg sample_env ''/d/bad.sgy'' ?w1
     = (Inl (Exn ''ValueError''), ?w1,
        [Exists ''/d/bad.sgy'', Exists ''/d/bad.hdf5'',
         Construct ''/d/bad.sgy'' [''INLINE_3D'', ''CROSSLINE_3D'', ''CDP_X'', ''CDP_Y'']
           [''INLINE_3D'', ''CROSSLINE_3D''] True True True])"
    using iteration_construct_raises [OF g1' sample_construct_raises]
    by (simp add: pb banner_def sample_headers sample_flags)
  note d = exceptions_propagate [where cfg = sample_cfg and env = sample_env
      and before = "[''/d/a.sgy'']" and v = ?w and q = "''/d/bad.sgy''"
      and rest = "[''/d/c.sgy'']",
      THEN conjunct2, THEN conjunct2, THEN conjunct2, rule_format, OF conjI, OF first bad]
  have i: "iteration sample_cfg sample_env ''/d/bad.sgy'' [''/d/bad.sgy'']
     = (Inl (Exn ''ValueError''), [''/d/bad.sgy''],
        [Exists ''/d/bad.sgy'', Exists ''/d/bad.hdf5'',
         Construct ''/d/bad.sgy'' [''INLINE_3D'', ''CROSSLINE_3D'', ''CDP_X'', ''CDP_Y'']
           [''INLINE_3D'', ''CROSSLINE_3D''] True True True])"
    using a [OF conjI [OF g1 sample_construct_raises]]
    by (simp add: pb banner_def sample_headers sample_flags)
  have ii: "iteration ?z sample_env ''/d/a.sgy'' [''/d/a.sgy'']
     = (Inl (Exn ''ValueError''), [''/d/a.sgy'', ''/d/a.meta''],
        [Exists ''/d/a.sgy'', Exists ''/d/a.zarr'',
         Construct ''/d/a.sgy'' [''INLINE_3D'', ''CROSSLINE_3D'', ''CDP_X'', ''CDP_Y'']
           [''INLINE_3D'', ''CROSSLINE_3D''] True True True,
         Quality_map ''/d/a.sgy'', Convert ''/d/a.sgy'' ''zarr'' False])"
    using b g2(1) flags
    by (simp add: sample_constructs sample_diagnostics sample_convert_raises pz sample_headers)
  have iii: "iteration ?zs sample_env ''/d/a.sgy'' [''/d/a.sgy'']
     = (Inl (Exn ''ValueError''), [''/d/a.sgy'', ''/d/a.meta''],
        [Exists ''/d/a.sgy'', Exists ''/d/a.zarr'',
         Print (str_mul block 60 @ ''\<newline>''), Print (str_mul block 60 @ ''\<newline>''),
         Print ''Working with /d/a.sgy\<newline>'',
         Construct ''/d/a.sgy'' [''INLINE_3D'', ''CROSSLINE_3D'', ''CDP_X'', ''CDP_Y'']
           [''INLINE_3D'', ''CROSSLINE_3D''] True True True,
         Quality_map ''/d/a.sgy'', Geometry_print ''/d/a.sgy'', Geometry_print_textual ''/d/a.sgy'',
         Geometry_show ''/d/a.sgy'', Geometry_show_quality_map ''/d/a.sgy'', Plt_show,
         Convert ''/d/a.sgy'' ''zarr'' False])"
    using c g2(2) flags
    by (simp add: sample_constructs sample_diagnostics sample_convert_raises pz sample_headers
        banner_def)
  from i ii iii d show ?thesis by simp
qed

subsection \<open>Path discovery\<close>

lemma discover_paths_run:
  "discover_paths env pat w
     = (Inr (sorted_py (glob env w pat)), w,
        Glob pat # map (\<lambda>path. Print (path @ ''\<newline>'')) (sorted_py (glob env w pat)))"
  by (simp add: discover_paths_def Let_def then_do_query then_do_def [of "for_each _ _"]
       for_each_print done_with_apply)

lemma sorted_lexicographic:
  "sorted (xs :: string list)
   \<Longrightarrow> sorted_wrt (\<lambda>a b. a = b \<or> (a, b) \<in> lexord {(c, d). of_char c < (of_char d :: nat)}) xs"
  by (erule sorted_wrt_mono_rel [rotated]) (auto simp: list_le_def list_less_def less_char_def)

text \<open>
  C8. Path discovery returns the matches of \<^verbatim>\<open>glob\<close>, each as often as
  \<^verbatim>\<open>glob\<close> gave it, in lexicographic order of their bytes, and changes nothing; it
  prints each path. When the pattern matches nothing, the list is empty, the loop runs over
  no cube and the notebook ends normally with the world unchanged.
\<close>

theorem paths_sorted:
  "discover_paths env pat w
     = (Inr (sorted_py (glob env w pat)), w,
        Glob pat # map (\<lambda>path. Print (path @ ''\<newline>'')) (sorted_py (glob env w pat)))
   \<and> mset (sorted_py (glob env w pat)) = mset (glob env w pat)
   \<and> sorted_wrt (\<lambda>a b. a = b \<or> (a, b) \<in> lexord {(c, d). of_char c < (of_char d :: nat)})
        (sorted_py (glob env w pat))
   \<and> (glob env w pattern = []
      \<longrightarrow> discover_paths env pattern w = (Inr [], w, [Glob pattern])
          \<and> convert_cubes cfg env [] w = (Inr (), w, [])
          \<and> notebook cfg env w = (Inr (), w, [Glob pattern]))"
proof (intro conjI impI)
  show "discover_paths env pat w
     = (Inr (sorted_py (glob env w pat)), w,
        Glob pat # map (\<lambda>path. Print (path @ ''\<newline>'')) (sorted_py (glob env w pat)))"
    by (rule discover_paths_run)
  show "mset (sorted_py (glob env w pat)) = mset (glob env w pat)"
    by (simp add: sorted_py_def)
  show "sorted_wrt (\<lambda>a b. a = b \<or> (a, b) \<in> lexord {(c, d). of_char c < (of_char d :: nat)})
        (sorted_py (glob env w pat))"
    by (rule sorted_lexicographic) (simp add: sorted_py_def)
next
  assume e: "glob env w pattern = []"
  then show d: "discover_paths env pattern w = (Inr [], w, [Glob pattern])"
    by (simp add: discover_paths_run sorted_py_def)
  show "convert_cubes cfg env [] w = (Inr (), w, [])"
    by (simp add: convert_cubes_def for_each_Nil)
  then show "notebook cfg env w = (Inr (), w, [Glob pattern])"
    using d by (simp add: notebook_def then_do_def)
qed

theorem paths_sorted_witness:
  "glob sample_env [] pattern = []
   \<and> notebook sample_cfg sample_env [] = (Inr (), [], [Glob pattern])
   \<and> fst (discover_paths sample_env pattern [''/d/b/amplitudes.sgy'', ''/d/B/amplitudes.sgy'',
                ''/d/a/amplitudes.sgy''])
       = Inr [''/d/B/amplitudes.sgy'', ''/d/a/amplitudes.sgy'', ''/d/b/amplitudes.sgy'']"
proof -
  have e: "glob sample_env [] pattern = []" by (simp add: sample_env_def)
  have s: "sorted_py (glob sample_env [''/d/b/amplitudes.sgy'', ''/d/B/amplitudes.sgy'',
                ''/d/a/amplitudes.sgy''] pattern)
       = [''/d/B/amplitudes.sgy'', ''/d/a/amplitudes.sgy'', ''/d/b/amplitudes.sgy'']"
    by (simp add: sample_env_def sorted_py_def)
  from e s paths_sorted [of sample_env pattern "[]" sample_cfg]
    paths_sorted [of sample_env pattern "[''/d/b/amplitudes.sgy'', ''/d/B/amplitudes.sgy'',
                ''/d/a/amplitudes.sgy'']" sample_cfg]
  show ?thesis by simp
qed

subsection \<open>The quality map\<close>

text \<open>
  C9. For a cube that gets past the three checks, the quality map of the geometry is
  computed as soon as the constructor has returned it, whatever \<open>SHOW\<close> is: the
  \<^verbatim>\<open>quality_map\<close> operation runs on the world the constructor left, between the
  constructor call and the second \<^verbatim>\<open>if SHOW:\<close> block and outside both. Its exception is
  the outcome of the iteration; when it returns, the next call (the first print with
  \<open>SHOW\<close> on, the conversion with \<open>SHOW\<close> off) runs on the world it left. (When the
  constructor raises there is no geometry, and the iteration ends with that exception.)
\<close>

theorem quality_map_always_computed:
  assumes "os_path_exists env w p"
    and "\<not> (os_path_exists env w (path_converted cfg p) \<and> \<not> RECREATE cfg)"
    and "\<not> DRY_RUN cfg"
  shows "case SeismicGeometry env p (HEADERS_POST_FULL env) (INDEX_POST env) True True True w of
           (Inl e, w1) \<Rightarrow>
             iteration cfg env p w
               = (Inl e, w1, [Exists p, Exists (path_converted cfg p)] @ banner cfg p
                    @ [Construct p (HEADERS_POST_FULL env) (INDEX_POST env) True True True])
         | (Inr geometry, w1) \<Rightarrow>
             (case quality_map env geometry w1 of
                (Inl e, w2) \<Rightarrow>
                  iteration cfg env p w
                    = (Inl e, w2, [Exists p, Exists (path_converted cfg p)] @ banner cfg p
                         @ [Construct p (HEADERS_POST_FULL env) (INDEX_POST env) True True True,
                            Quality_map geometry])
              | (Inr u, w2) \<Rightarrow>
                  (if SHOW cfg
                   then (case geometry_print env geometry w2 of
                           (Inl e, w3) \<Rightarrow>
                             iteration cfg env p w
                               = (Inl e, w3,
                                  [Exists p, Exists (path_converted cfg p)] @ banner cfg p
                                  @ [Construct p (HEADERS_POST_FULL env) (INDEX_POST env)
                                       True True True,
                                     Quality_map geometry, Geometry_print geometry])
                         | (Inr u', w3) \<Rightarrow>
                             (\<exists>r w' rest.
                                iteration cfg env p w
                                  = (r, w',
                                     [Exists p, Exists (path_converted cfg p)] @ banner cfg p
                                     @ [Construct p (HEADERS_POST_FULL env) (INDEX_POST env)
                                          True True True,
                                        Quality_map geometry, Geometry_print geometry] @ rest)))
                   else iteration cfg env p w
                          = (case geometry_convert env geometry (FORMAT cfg) (QUANTIZE cfg) w2 of
                               (Inl e, w3) \<Rightarrow>
                                 (Inl e, w3,
                                  [Exists p, Exists (path_converted cfg p),
                                   Construct p (HEADERS_POST_FULL env) (INDEX_POST env)
                                     True True True,
                                   Quality_map geometry,
                                   Convert geometry (FORMAT cfg) (QUANTIZE cfg)])
                             | (Inr geometry_converted, w3) \<Rightarrow>
                                 (Inr (), w3,
                                  [Exists p, Exists (path_converted cfg p),
                                   Construct p (HEADERS_POST_FULL env) (INDEX_POST env)
                                     True True True,
                                   Quality_map geometry,
                                   Convert geometry (FORMAT cfg) (QUANTIZE cfg)]))))"
proof -
  from assms have g: "gates_pass cfg env p w" by (simp add: gates_pass_def)
  obtain res w1 where c:
    "SeismicGeometry env p (HEADERS_POST_FULL env) (INDEX_POST env) True True True w = (res, w1)"
    by (cases "SeismicGeometry env p (HEADERS_POST_FULL env) (INDEX_POST env) True True True w")
  show ?thesis
  proof (cases res)
    case (Inl e)
    with c iteration_construct_raises [OF g, of e w1] show ?thesis by simp
  next
    case geom: (Inr geometry)
    obtain qres w2 where q: "quality_map env geometry w1 = (qres, w2)"
      by (cases "quality_map env geometry w1")
    show ?thesis
    proof (cases qres)
      case (Inl e)
      with c geom q assms show ?thesis
        by (auto simp add: iteration_def prog_simps banner_def)
    next
      case (Inr u)
      show ?thesis
      proof (cases "SHOW cfg")
        case False
        with c geom q Inr assms show ?thesis
          by (auto simp add: iteration_def prog_simps split: prod.splits sum.splits)
      next
        case True
        obtain pres w3 where gp: "geometry_print env geometry w2 = (pres, w3)"
          by (cases "geometry_print env geometry w2")
        from True c geom q Inr assms gp show ?thesis
          by (cases pres)
             (auto simp add: iteration_def prog_simps banner_def split: prod.splits sum.splits)
      qed
    qed
  qed
qed

theorem quality_map_always_computed_witness:
  "os_path_exists sample_env [''/d/a.sgy''] ''/d/a.sgy''
   \<and> \<not> os_path_exists sample_env [''/d/a.sgy''] (path_converted sample_cfg ''/d/a.sgy'')
   \<and> \<not> DRY_RUN sample_cfg
   \<and> \<not> SHOW sample_cfg
   \<and> iteration sample_cfg sample_env ''/d/a.sgy'' [''/d/a.sgy'']
       = (Inr (), [''/d/a.sgy'', ''/d/a.meta'', ''/d/a.hdf5''],
          [Exists ''/d/a.sgy'', Exists ''/d/a.hdf5'',
           Construct ''/d/a.sgy'' [''INLINE_3D'', ''CROSSLINE_3D'', ''CDP_X'', ''CDP_Y'']
             [''INLINE_3D'', ''CROSSLINE_3D''] True True True,
           Quality_map ''/d/a.sgy'', Convert ''/d/a.sgy'' ''hdf5'' False])
   \<and> quality_map
        (sample_env\<lparr>quality_map := \<lambda>g w. (Inl (Exn ''MemoryError''), w @ [''/d/a.qmap.tmp''])\<rparr>)
        ''/d/a.sgy'' [''/d/a.sgy'', ''/d/a.meta'']
       = (Inl (Exn ''MemoryError''), [''/d/a.sgy'', ''/d/a.meta'', ''/d/a.qmap.tmp''])
   \<and> iteration sample_cfg
        (sample_env\<lparr>quality_map := \<lambda>g w. (Inl (Exn ''MemoryError''), w @ [''/d/a.qmap.tmp''])\<rparr>)
        ''/d/a.sgy'' [''/d/a.sgy'']
       = (Inl (Exn ''MemoryError''), [''/d/a.sgy'', ''/d/a.meta'', ''/d/a.qmap.tmp''],
          [Exists ''/d/a.sgy'', Exists ''/d/a.hdf5'',
           Construct ''/d/a.sgy'' [''INLINE_3D'', ''CROSSLINE_3D'', ''CDP_X'', ''CDP_Y'']
             [''INLINE_3D'', ''CROSSLINE_3D''] True True True,
           Quality_map ''/d/a.sgy''])"
proof -
  let ?env = "sample_env\<lparr>quality_map := \<lambda>g w. (Inl (Exn ''MemoryError''), w @ [''/d/a.qmap.tmp''])\<rparr>"
  have a: "os_path_exists sample_env [''/d/a.sgy''] ''/d/a.sgy''" by simp
  have b: "\<not> (os_path_exists sample_env [''/d/a.sgy''] (path_converted sample_cfg ''/d/a.sgy'')
              \<and> \<not> RECREATE sample_cfg)"
    by (simp add: path_converted_sample)
  have a': "os_path_exists ?env [''/d/a.sgy''] ''/d/a.sgy''" by (simp add: sample_env_def)
  have b': "\<not> (os_path_exists ?env [''/d/a.sgy''] (path_converted sample_cfg ''/d/a.sgy'')
              \<and> \<not> RECREATE sample_cfg)"
    by (simp add: path_converted_sample sample_env_def)
  note c = sample_flags(2) and s = sample_flags(1)
  have q: "quality_map ?env ''/d/a.sgy'' [''/d/a.sgy'', ''/d/a.meta'']
       = (Inl (Exn ''MemoryError''), [''/d/a.sgy'', ''/d/a.meta'', ''/d/a.qmap.tmp''])"
    by (simp add: sample_env_def)
  have v: "geometry_convert sample_env ''/d/a.sgy'' ''hdf5'' False [''/d/a.sgy'', ''/d/a.meta'']
       = (Inr ''/d/a.hdf5'', [''/d/a.sgy'', ''/d/a.meta'', ''/d/a.hdf5''])"
    by (simp add: sample_env_def splitext_sgy Let_def)
  have one: "iteration sample_cfg sample_env ''/d/a.sgy'' [''/d/a.sgy'']
       = (Inr (), [''/d/a.sgy'', ''/d/a.meta'', ''/d/a.hdf5''],
          [Exists ''/d/a.sgy'', Exists ''/d/a.hdf5'',
           Construct ''/d/a.sgy'' [''INLINE_3D'', ''CROSSLINE_3D'', ''CDP_X'', ''CDP_Y'']
             [''INLINE_3D'', ''CROSSLINE_3D''] True True True,
           Quality_map ''/d/a.sgy'', Convert ''/d/a.sgy'' ''hdf5'' False])"
    using quality_map_always_computed [OF a b c]
    by (simp add: sample_constructs sample_diagnostics sample_flags sample_headers v
          path_converted_sample)
  have two: "iteration sample_cfg ?env ''/d/a.sgy'' [''/d/a.sgy'']
       = (Inl (Exn ''MemoryError''), [''/d/a.sgy'', ''/d/a.meta'', ''/d/a.qmap.tmp''],
          [Exists ''/d/a.sgy'', Exists ''/d/a.hdf5'',
           Construct ''/d/a.sgy'' [''INLINE_3D'', ''CROSSLINE_3D'', ''CDP_X'', ''CDP_Y'']
             [''INLINE_3D'', ''CROSSLINE_3D''] True True True,
           Quality_map ''/d/a.sgy''])"
    using quality_map_always_computed [OF a' b' c]
    by (simp add: sample_env_def splitext_sgy banner_def sample_flags path_converted_sample)
  from a b c s q one two show ?thesis by (simp add: path_converted_sample)
qed

subsection \<open>Notice and report under dry run\<close>

text \<open>
  C10 (as amended). Under \<open>DRY_RUN\<close>, for a cube path that exists and whose converted
  path exists with \<open>RECREATE\<close> off, the iteration prints the notice that the converted
  file already exists and not the dry-run report. The dry-run report is printed only for a
  cube path that exists and whose converted file is absent or to be recreated.
\<close>

theorem notice_wins_over_report:
  "(DRY_RUN cfg \<and> os_path_exists env w p \<and> os_path_exists env w (path_converted cfg p)
      \<and> \<not> RECREATE cfg
    \<longrightarrow> iteration cfg env p w
          = (Inr (), w, [Exists p, Exists (path_converted cfg p), Print (skip_notice cfg p)])
        \<and> skip_notice cfg p \<noteq> dry_run_report cfg p)
   \<and> (\<forall>r w' evs. iteration cfg env p w = (r, w', evs)
          \<and> Print (dry_run_report cfg p) \<in> set evs
        \<longrightarrow> os_path_exists env w p
            \<and> \<not> (os_path_exists env w (path_converted cfg p) \<and> \<not> RECREATE cfg))"
proof (intro conjI impI allI)
  assume "DRY_RUN cfg \<and> os_path_exists env w p \<and> os_path_exists env w (path_converted cfg p)
      \<and> \<not> RECREATE cfg"
  then show "iteration cfg env p w
          = (Inr (), w, [Exists p, Exists (path_converted cfg p), Print (skip_notice cfg p)])"
    by (simp add: iteration_skip)
next
  show "skip_notice cfg p \<noteq> dry_run_report cfg p" by (rule notice_not_report)
next
  fix r w' evs
  assume a: "iteration cfg env p w = (r, w', evs)
          \<and> Print (dry_run_report cfg p) \<in> set evs"
  show "os_path_exists env w p"
  proof (rule ccontr)
    assume "\<not> os_path_exists env w p"
    with a show False by (auto simp add: iteration_missing)
  qed
  show "\<not> (os_path_exists env w (path_converted cfg p) \<and> \<not> RECREATE cfg)"
  proof
    assume b: "os_path_exists env w (path_converted cfg p) \<and> \<not> RECREATE cfg"
    show False
    proof (cases "os_path_exists env w p")
      case True
      with a b show False by (auto simp add: iteration_skip notice_not_report [symmetric])
    next
      case False
      with a show False by (auto simp add: iteration_missing)
    qed
  qed
qed

theorem notice_wins_over_report_witness:
  "DRY_RUN (sample_cfg\<lparr>DRY_RUN := True\<rparr>)
   \<and> os_path_exists sample_env [''/d/a.sgy'', ''/d/a.hdf5''] ''/d/a.sgy''
   \<and> os_path_exists sample_env [''/d/a.sgy'', ''/d/a.hdf5'']
        (path_converted (sample_cfg\<lparr>DRY_RUN := True\<rparr>) ''/d/a.sgy'')
   \<and> \<not> RECREATE (sample_cfg\<lparr>DRY_RUN := True\<rparr>)
   \<and> iteration (sample_cfg\<lparr>DRY_RUN := True\<rparr>) sample_env ''/d/a.sgy'' [''/d/a.sgy'', ''/d/a.hdf5'']
     = (Inr (), [''/d/a.sgy'', ''/d/a.hdf5''],
        [Exists ''/d/a.sgy'', Exists ''/d/a.hdf5'', Print ''/d/a.hdf5 already exists, skipping\<newline>''])
   \<and> Print (dry_run_report (sample_cfg\<lparr>DRY_RUN := True\<rparr>) ''/d/a.sgy'')
       \<in> set (snd (snd (iteration (sample_cfg\<lparr>DRY_RUN := True\<rparr>) sample_env ''/d/a.sgy''
                  [''/d/a.sgy''])))
   \<and> \<not> os_path_exists sample_env [''/d/a.sgy'']
        (path_converted (sample_cfg\<lparr>DRY_RUN := True\<rparr>) ''/d/a.sgy'')"
proof -
  have d: "DRY_RUN (sample_cfg\<lparr>DRY_RUN := True\<rparr>)" "\<not> RECREATE (sample_cfg\<lparr>DRY_RUN := True\<rparr>)"
    by (simp_all add: sample_cfg_def)
  have r: "Print (dry_run_report (sample_cfg\<lparr>DRY_RUN := True\<rparr>) ''/d/a.sgy'')
       \<in> set (snd (snd (iteration (sample_cfg\<lparr>DRY_RUN := True\<rparr>) sample_env ''/d/a.sgy''
                  [''/d/a.sgy''])))"
    using d by (simp add: iteration_dry)
  from d r
    notice_wins_over_report [of "sample_cfg\<lparr>DRY_RUN := True\<rparr>" sample_env
      "[''/d/a.sgy'', ''/d/a.hdf5'']" "''/d/a.sgy''"]
    notice_wins_over_report [of "sample_cfg\<lparr>DRY_RUN := True\<rparr>" sample_env
      "[''/d/a.sgy'']" "''/d/a.sgy''"]
  show ?thesis by (simp add: skip_notice_def)
qed

text \<open>
  C10 as stated does not hold when the cube path itself is missing: with \<open>DRY_RUN\<close>
  on, the converted file present and \<open>RECREATE\<close> off, neither the notice nor the report
  is printed.
\<close>

theorem dry_run_prints_nothing_for_missing_source:
  "DRY_RUN (sample_cfg\<lparr>DRY_RUN := True\<rparr>)
   \<and> os_path_exists sample_env [''/d/a.hdf5'']
        (path_converted (sample_cfg\<lparr>DRY_RUN := True\<rparr>) ''/d/a.sgy'')
   \<and> \<not> RECREATE (sample_cfg\<lparr>DRY_RUN := True\<rparr>)
   \<and> iteration (sample_cfg\<lparr>DRY_RUN := True\<rparr>) sample_env ''/d/a.sgy'' [''/d/a.hdf5'']
       = (Inr (), [''/d/a.hdf5''], [Exists ''/d/a.sgy''])"
  by (simp add: iteration_missing) (simp add: sample_cfg_def)

end
